theory Spec2Isabelle
  imports Complex_Main "HOL-Library.Word" "HOL-Library.Sublist"
begin

section \<open>Strings and numbers of the source language\<close>

text \<open>
  A TypeScript string is a sequence of 16-bit code units. Outputs of iterations and of
  spawned commands may hold any code unit (the detectors look for U+2713, U+2714, U+2717
  and U+2718), so every string of the source is a list of 16-bit words. \<open>js\<close> embeds
  an ASCII literal. Numbers of the source that hold counters, exit codes and millisecond
  time stamps are integers.
\<close>

type_synonym jsstring = "16 word list"

definition js :: "string \<Rightarrow> jsstring" where
  "js s = map of_char s"

text \<open>A string is truthy exactly when it is not empty.\<close>

definition truthy :: "jsstring \<Rightarrow> bool" where
  "truthy s = (s \<noteq> [])"

text \<open>Decimal rendering of an integer inside a template literal.\<close>

fun show_nat :: "nat \<Rightarrow> jsstring" where
  "show_nat n =
     (if n < 10 then [of_nat (48 + n)]
      else show_nat (n div 10) @ [of_nat (48 + n mod 10)])"

declare show_nat.simps [simp del]

definition show_int :: "int \<Rightarrow> jsstring" where
  "show_int i = (if i < 0 then js ''-'' @ show_nat (nat (- i)) else show_nat (nat i))"

section \<open>Stop conditions (stop-conditions.ts)\<close>

record StopConditions =
  maxIterations :: int
  maxDurationMs :: int
  noProgressThreshold :: int

datatype StopReasonType = max_iterations | max_duration | no_progress

record StopReason =
  reason :: StopReasonType
  details :: jsstring

text \<open>\<open>startedAt\<close> is the start date as milliseconds since the epoch (\<open>getTime()\<close>).\<close>

record LoopRunState =
  iterations :: int
  startedAt :: int
  noProgressCount :: int

definition DEFAULT_STOP_CONDITIONS :: StopConditions where
  "DEFAULT_STOP_CONDITIONS =
     \<lparr>maxIterations = 10, maxDurationMs = 1800000, noProgressThreshold = 3\<rparr>"

text \<open>
  \<open>shouldStop\<close> reads the clock once (\<open>new Date()\<close>); the reading is the first
  argument. \<open>Math.floor (d / 60000)\<close> on integers is \<open>d div 60000\<close>.
\<close>

definition shouldStop :: "int \<Rightarrow> LoopRunState \<Rightarrow> StopConditions \<Rightarrow> StopReason option" where
  "shouldStop now state conditions =
     (if iterations state \<ge> maxIterations conditions then
        Some \<lparr>reason = max_iterations,
              details = js ''Reached maximum iterations ('' @ show_int (iterations state)
                 @ js ''/'' @ show_int (maxIterations conditions) @ js '')''\<rparr>
      else
        let durationMs = now - startedAt state in
        if durationMs \<ge> maxDurationMs conditions then
          let durationMinutes = durationMs div 60000;
              maxMinutes = maxDurationMs conditions div 60000
          in Some \<lparr>reason = max_duration,
                   details = js ''Reached maximum duration ('' @ show_int durationMinutes
                      @ js ''min/'' @ show_int maxMinutes @ js ''min)''\<rparr>
        else if noProgressCount state \<ge> noProgressThreshold conditions then
          Some \<lparr>reason = no_progress,
                details = js ''No progress detected for '' @ show_int (noProgressCount state)
                   @ js '' consecutive iterations''\<rparr>
        else None)"

subsection \<open>Regular expressions of the detectors\<close>

text \<open>
  The detectors use regular expressions without the unicode flag. White space
  (\<open>String.prototype.trim\<close>, \<open>\s\<close>) is the set of the language standard: tab, line
  feed, vertical tab, form feed, carriage return, space, no-break space, U+1680,
  U+2000 to U+200A, U+2028, U+2029, U+202F, U+205F, U+3000 and U+FEFF.
\<close>

definition isWhiteSpace :: "16 word \<Rightarrow> bool" where
  "isWhiteSpace c =
     (c \<in> set [0x0009, 0x000A, 0x000B, 0x000C, 0x000D, 0x0020, 0x00A0, 0x1680,
                0x2028, 0x2029, 0x202F, 0x205F, 0x3000, 0xFEFF]
      \<or> (0x2000 \<le> c \<and> c \<le> 0x200A))"

definition trim :: "jsstring \<Rightarrow> jsstring" where
  "trim s = rev (dropWhile isWhiteSpace (rev (dropWhile isWhiteSpace s)))"

text \<open>A word character (\<open>\w\<close>, and the two sides of \<open>\b\<close>) is an ASCII letter, digit or underscore.\<close>

definition IsWordChar :: "16 word \<Rightarrow> bool" where
  "IsWordChar c =
     ((0x61 \<le> c \<and> c \<le> 0x7A) \<or> (0x41 \<le> c \<and> c \<le> 0x5A)
      \<or> (0x30 \<le> c \<and> c \<le> 0x39) \<or> c = 0x5F)"

text \<open>
  Under the \<open>i\<close> flag two code units match when their canonical forms agree. The
  canonical form is the upper case, except that a code unit outside ASCII is never mapped
  into ASCII. Every pattern character matched under \<open>i\<close> below is ASCII, and against
  those only the ASCII part of the mapping matters, which is what is written here.
\<close>

definition Canonicalize :: "16 word \<Rightarrow> 16 word" where
  "Canonicalize c = (if 0x61 \<le> c \<and> c \<le> 0x7A then c - 0x20 else c)"

datatype cclass = Space | Digit | WordDotSlash

fun in_class :: "cclass \<Rightarrow> 16 word \<Rightarrow> bool" where
  "in_class Space c = isWhiteSpace c"
| "in_class Digit c = (0x30 \<le> c \<and> c \<le> 0x39)"
| "in_class WordDotSlash c = (IsWordChar c \<or> c = 0x2E \<or> c = 0x2F)"

text \<open>
  The fragment of the pattern language that the source uses: literal characters, \<open>\b\<close>,
  sequence, alternation, a greedy optional group \<open>(?:r)?\<close> and a greedy \<open>[class]+\<close>.
  None of the patterns has a capture group.
\<close>

datatype regex =
    Eps
  | Chr "16 word"
  | WordBoundary
  | Seq regex regex
  | Alt regex regex
  | Opt regex
  | Plus cclass

fun lit :: "string \<Rightarrow> regex" where
  "lit [] = Eps"
| "lit (c # cs) = Seq (Chr (of_char c)) (lit cs)"

text \<open>
  Backtracking as a list of successes: \<open>ends ic r s i\<close> lists the positions at which a
  match of \<open>r\<close> that starts at position \<open>i\<close> of \<open>s\<close> can end, in the order in which the
  backtracking matcher tries them (left alternative first, the optional group taken before
  it is skipped, the longest repetition first). The matcher reports the first one.
\<close>

fun ends :: "bool \<Rightarrow> regex \<Rightarrow> jsstring \<Rightarrow> nat \<Rightarrow> nat list" where
  "ends ic Eps s i = [i]"
| "ends ic (Chr c) s i =
     (if i < length s \<and> (if ic then Canonicalize (s ! i) = Canonicalize c else s ! i = c)
      then [Suc i] else [])"
| "ends ic WordBoundary s i =
     (let a = (0 < i \<and> i \<le> length s \<and> IsWordChar (s ! (i - 1)));
          b = (i < length s \<and> IsWordChar (s ! i))
      in if a \<noteq> b then [i] else [])"
| "ends ic (Seq r1 r2) s i = concat (map (ends ic r2 s) (ends ic r1 s i))"
| "ends ic (Alt r1 r2) s i = ends ic r1 s i @ ends ic r2 s i"
| "ends ic (Opt r) s i = ends ic r s i @ [i]"
| "ends ic (Plus cl) s i =
     rev (map (\<lambda>k. i + k) [1..<Suc (length (takeWhile (in_class cl) (drop i s)))])"

text \<open>
  \<open>exec ic r s i\<close> is one run of the matcher from \<open>lastIndex = i\<close>: the first start
  position at or after \<open>i\<close> with a match, and where that match ends.
\<close>

definition exec :: "bool \<Rightarrow> regex \<Rightarrow> jsstring \<Rightarrow> nat \<Rightarrow> (nat \<times> nat) option" where
  "exec ic r s i =
     (case filter (\<lambda>j. ends ic r s j \<noteq> []) [i..<Suc (length s)] of
        [] \<Rightarrow> None
      | j # _ \<Rightarrow> Some (j, hd (ends ic r s j)))"

text \<open>
  \<open>s.match(p)\<close> with the \<open>g\<close> flag collects every match, each search starting where the
  last match ended (one further after an empty match). \<open>matchAll\<close> lists the matches as
  pairs of start and end position; an empty list stands for the result \<open>null\<close>.
\<close>

function matchAll :: "bool \<Rightarrow> regex \<Rightarrow> jsstring \<Rightarrow> nat \<Rightarrow> (nat \<times> nat) list" where
  "matchAll ic r s i =
     (case exec ic r s i of
        None \<Rightarrow> []
      | Some (j, e) \<Rightarrow> (j, e) # matchAll ic r s (if e \<le> j then Suc j else e))"
  by pat_completeness auto
termination
proof (relation "measure (\<lambda>(ic, r, s, i). Suc (length s) - i)")
  show "wf (measure (\<lambda>(ic, r, s, i). Suc (length s) - i))" by simp
next
  fix ic r s i x2 j e
  assume ex: "exec ic r s i = Some x2" and x2: "(j, e) = x2"
  from ex x2 obtain js where "filter (\<lambda>j. ends ic r s j \<noteq> []) [i..<Suc (length s)] = j # js"
    by (auto simp: exec_def split: list.splits)
  then have "j \<in> set (filter (\<lambda>j. ends ic r s j \<noteq> []) [i..<Suc (length s)])" by simp
  then have "i \<le> j" "j \<le> length s" by auto
  then show "((ic, r, s, if e \<le> j then Suc j else e), ic, r, s, i)
      \<in> measure (\<lambda>(ic, r, s, i). Suc (length s) - i)"
    by auto
qed

declare matchAll.simps [simp del]

definition substring :: "jsstring \<Rightarrow> nat \<times> nat \<Rightarrow> jsstring" where
  "substring s m = take (snd m - fst m) (drop (fst m) s)"

text \<open>
  \<open>(s.match(p) || []).length\<close> for a pattern without the \<open>g\<close> flag: the result of
  \<open>match\<close> is then the array of the first match and its capture groups, or \<open>null\<close>. The
  patterns have no capture group, so the length is 1 when the pattern occurs and 0 when
  it does not.
\<close>

definition matchLength :: "regex \<times> bool \<Rightarrow> jsstring \<Rightarrow> nat" where
  "matchLength p s = (case exec (snd p) (fst p) s 0 of None \<Rightarrow> 0 | Some _ \<Rightarrow> 1)"

definition wordRx :: "regex \<Rightarrow> regex" where
  "wordRx r = Seq WordBoundary (Seq r WordBoundary)"

subsection \<open>The heuristic progress detector\<close>

text \<open>A pattern is its expression and its \<open>i\<close> flag.\<close>

definition errorPatterns :: "(regex \<times> bool) list" where
  "errorPatterns =
     [(wordRx (lit ''error''), True),
      (wordRx (Seq (lit ''fail'') (Opt (Alt (lit ''ed'') (Alt (lit ''ure'') (lit ''s''))))), True),
      (wordRx (lit ''exception''), True),
      (wordRx (lit ''stack trace''), True),
      (Chr 0x2717, False),
      (Chr 0x2718, False)]"

definition countErrors :: "jsstring \<Rightarrow> nat" where
  "countErrors output =
     sum_list (map (\<lambda>(r, ic). length (matchAll ic r output 0)) errorPatterns)"

definition progressPatterns :: "(regex \<times> bool) list" where
  "progressPatterns =
     [(wordRx (Seq (lit ''passe'') (Opt (lit ''d''))), True),
      (wordRx (lit ''success''), True),
      (wordRx (lit ''fixed''), True),
      (wordRx (lit ''resolved''), True),
      (wordRx (Seq (lit ''complete'') (Opt (lit ''d''))), True),
      (wordRx (lit ''working''), True),
      (Chr 0x2713, False),
      (Chr 0x2714, False)]"

definition regressionPatterns :: "(regex \<times> bool) list" where
  "regressionPatterns =
     [(wordRx (Seq (lit ''faile'') (Opt (lit ''d''))), True),
      (wordRx (lit ''error''), True),
      (wordRx (lit ''exception''), True),
      (Chr 0x2717, False),
      (Chr 0x2718, False)]"

text \<open>
  \<open>detectProgress\<close> of \<open>createSimpleProgressDetector\<close>. Each of the two loops returns
  at the first pattern whose match length grew, so it is an existential over the list.
\<close>

definition detectProgress :: "jsstring \<Rightarrow> jsstring \<Rightarrow> bool" where
  "detectProgress prevOutput currentOutput =
     (if prevOutput = currentOutput then False
      else if \<not> truthy (trim currentOutput) \<and> truthy (trim prevOutput) then False
      else
        let prevErrors = countErrors prevOutput;
            currentErrors = countErrors currentOutput
        in if currentErrors < prevErrors then True
           else if currentErrors > prevErrors then False
           else if list_ex (\<lambda>p. matchLength p currentOutput > matchLength p prevOutput)
                     progressPatterns then True
           else if list_ex (\<lambda>p. matchLength p currentOutput > matchLength p prevOutput)
                     regressionPatterns then False
           else True)"

subsection \<open>The stop-condition manager\<close>

text \<open>
  The closure of \<open>createStopConditionManager\<close> holds the conditions, the state and the
  last output. The detector is a parameter of \<open>recordIteration\<close>; \<open>detectorCalls\<close>
  records, in order, the pairs of outputs on which it has been consulted.
\<close>

record StopConditionManager =
  conditions :: StopConditions
  state :: LoopRunState
  lastOutput :: jsstring
  detectorCalls :: "(jsstring \<times> jsstring) list"

definition createStopConditionManager :: "int \<Rightarrow> StopConditions \<Rightarrow> StopConditionManager" where
  "createStopConditionManager now conds =
     \<lparr>conditions = conds,
      state = \<lparr>iterations = 0, startedAt = now, noProgressCount = 0\<rparr>,
      lastOutput = [],
      detectorCalls = []\<rparr>"

definition getState :: "StopConditionManager \<Rightarrow> LoopRunState" where
  "getState m = state m"

definition recordIteration ::
  "(jsstring \<Rightarrow> jsstring \<Rightarrow> bool) \<Rightarrow> StopConditionManager \<Rightarrow> jsstring
     \<Rightarrow> StopConditionManager \<times> int" where
  "recordIteration detector m output =
     (let m1 = m\<lparr>state := (state m)\<lparr>iterations := iterations (state m) + 1\<rparr>\<rparr>
      in if iterations (state m1) = 1 then
           (m1\<lparr>lastOutput := output\<rparr>, noProgressCount (state m1))
         else
           let hasProgress = detector (lastOutput m1) output;
               m2 = m1\<lparr>detectorCalls := detectorCalls m1 @ [(lastOutput m1, output)]\<rparr>;
               m3 = (if hasProgress then m2\<lparr>state := (state m2)\<lparr>noProgressCount := 0\<rparr>\<rparr>
                     else m2\<lparr>state := (state m2)\<lparr>noProgressCount :=
                                                    noProgressCount (state m2) + 1\<rparr>\<rparr>)
           in (m3\<lparr>lastOutput := output\<rparr>, noProgressCount (state m3)))"

definition managerShouldStop :: "int \<Rightarrow> StopConditionManager \<Rightarrow> StopReason option" where
  "managerShouldStop now m = shouldStop now (state m) (conditions m)"

definition resetNoProgressCount :: "StopConditionManager \<Rightarrow> StopConditionManager" where
  "resetNoProgressCount m = m\<lparr>state := (state m)\<lparr>noProgressCount := 0\<rparr>\<rparr>"

text \<open>A caller's use of a manager: a sequence of calls that change it.\<close>

datatype managerCall = RecordIteration jsstring | ResetNoProgressCount

fun applyCall ::
  "(jsstring \<Rightarrow> jsstring \<Rightarrow> bool) \<Rightarrow> StopConditionManager \<Rightarrow> managerCall
     \<Rightarrow> StopConditionManager" where
  "applyCall detector m (RecordIteration output) = fst (recordIteration detector m output)"
| "applyCall detector m ResetNoProgressCount = resetNoProgressCount m"

definition applyCalls ::
  "(jsstring \<Rightarrow> jsstring \<Rightarrow> bool) \<Rightarrow> StopConditionManager \<Rightarrow> managerCall list
     \<Rightarrow> StopConditionManager" where
  "applyCalls detector m calls = foldl (applyCall detector) m calls"

fun isRecord :: "managerCall \<Rightarrow> bool" where
  "isRecord (RecordIteration _) = True"
| "isRecord ResetNoProgressCount = False"

section \<open>Success criteria evaluator (engine.ts, second part)\<close>

subsection \<open>String helpers\<close>

text \<open>\<open>xs.join(sep)\<close>.\<close>

fun joinStrings :: "jsstring \<Rightarrow> jsstring list \<Rightarrow> jsstring" where
  "joinStrings sep [] = []"
| "joinStrings sep [x] = x"
| "joinStrings sep (x # y # ys) = x @ sep @ joinStrings sep (y # ys)"

text \<open>\<open>s.includesStr(p)\<close>.\<close>

fun includesStr :: "jsstring \<Rightarrow> jsstring \<Rightarrow> bool" where
  "includesStr [] p = (p = [])"
| "includesStr (c # cs) p = (take (length p) (c # cs) = p \<or> includesStr cs p)"

text \<open>
  \<open>s.split(/\s+/)\<close>: the pieces between the maximal runs of white space; a string
  without white space, the empty string too, is its own single piece.
\<close>

function splitWhiteSpace :: "jsstring \<Rightarrow> jsstring list" where
  "splitWhiteSpace s =
     (let piece = takeWhile (\<lambda>c. \<not> isWhiteSpace c) s;
          rest = dropWhile (\<lambda>c. \<not> isWhiteSpace c) s
      in if rest = [] then [piece]
         else piece # splitWhiteSpace (dropWhile isWhiteSpace rest))"
  by pat_completeness auto
termination
proof (relation "measure length")
  show "wf (measure length)" by simp
next
  fix s :: jsstring and piece rest
  assume rest: "rest = dropWhile (\<lambda>c. \<not> isWhiteSpace c) s" and ne: "rest \<noteq> []"
  from ne obtain c cs where cons: "rest = c # cs" by (cases rest) auto
  from cons rest have "dropWhile (\<lambda>c. \<not> isWhiteSpace c) s = c # cs" by simp
  then have "isWhiteSpace c"
    by (simp add: dropWhile_eq_Cons_conv)
  with cons have "length (dropWhile isWhiteSpace rest) \<le> length cs"
    by (simp add: length_dropWhile_le)
  also have "length cs < length rest" using cons by simp
  also have "length rest \<le> length s" using rest by (simp add: length_dropWhile_le)
  finally show "(dropWhile isWhiteSpace rest, s) \<in> measure length" by simp
qed

declare splitWhiteSpace.simps [simp del]

text \<open>\<open>[...new Set(xs)]\<close>: the distinct elements in the order of their first occurrence.\<close>

definition uniqueInOrder :: "'a list \<Rightarrow> 'a list" where
  "uniqueInOrder xs = foldl (\<lambda>acc x. if x \<in> set acc then acc else acc @ [x]) [] xs"

subsection \<open>Criteria, results and commands\<close>

datatype SuccessCriteriaType = test_pass | build_success | lint_clean | type_check | custom

text \<open>The type as it prints inside a template literal.\<close>

fun typeName :: "SuccessCriteriaType \<Rightarrow> jsstring" where
  "typeName test_pass = js ''test_pass''"
| "typeName build_success = js ''build_success''"
| "typeName lint_clean = js ''lint_clean''"
| "typeName type_check = js ''type_check''"
| "typeName custom = js ''custom''"

text \<open>
  \<open>SuccessCriteria\<close> is declared in the configuration module; the evaluator reads these
  four fields of it. An optional field that is absent is \<open>None\<close>.
\<close>

record SuccessCriteria =
  ctype :: SuccessCriteriaType
  command :: "jsstring option"
  timeout :: "int option"
  expectedExitCode :: "int option"

record EvaluationResult =
  success :: bool
  evalOutput :: jsstring
  evalReason :: jsstring
  exitCode :: "int option"
  suggestions :: "jsstring list option"

record EvaluationOptions =
  optTimeout :: "int option"
  cwd :: "jsstring option"

record CommandConfig =
  configCommand :: jsstring
  args :: "jsstring list"

text \<open>\<open>DEFAULT_COMMANDS\<close> has an entry for every type but \<open>custom\<close>.\<close>

fun DEFAULT_COMMANDS :: "SuccessCriteriaType \<Rightarrow> CommandConfig option" where
  "DEFAULT_COMMANDS test_pass = Some \<lparr>configCommand = js ''npm'', args = [js ''test'']\<rparr>"
| "DEFAULT_COMMANDS build_success =
     Some \<lparr>configCommand = js ''npm'', args = [js ''run'', js ''build'']\<rparr>"
| "DEFAULT_COMMANDS lint_clean =
     Some \<lparr>configCommand = js ''npm'', args = [js ''run'', js ''lint'']\<rparr>"
| "DEFAULT_COMMANDS type_check =
     Some \<lparr>configCommand = js ''npx'', args = [js ''tsc'', js ''--noEmit'']\<rparr>"
| "DEFAULT_COMMANDS custom = None"

definition DEFAULT_TIMEOUT :: int where
  "DEFAULT_TIMEOUT = 120000"

definition parseCommand :: "jsstring \<Rightarrow> CommandConfig" where
  "parseCommand commandStr =
     (let parts = splitWhiteSpace (trim commandStr)
      in \<lparr>configCommand = (case parts of [] \<Rightarrow> [] | p # _ \<Rightarrow> p), args = tl parts\<rparr>)"

definition getCommandConfig :: "SuccessCriteria \<Rightarrow> CommandConfig" where
  "getCommandConfig criteria =
     (case command criteria of
        Some c \<Rightarrow>
          if truthy c then parseCommand c
          else (case DEFAULT_COMMANDS (ctype criteria) of
                  None \<Rightarrow> \<lparr>configCommand = [], args = []\<rparr>
                | Some cfg \<Rightarrow> cfg)
      | None \<Rightarrow>
          (case DEFAULT_COMMANDS (ctype criteria) of
             None \<Rightarrow> \<lparr>configCommand = [], args = []\<rparr>
           | Some cfg \<Rightarrow> cfg))"

subsection \<open>Running a command\<close>

text \<open>
  \<open>executeCommand\<close> spawns a process, arms a timer and then only reacts to events: data
  on the two pipes, the timer, the close of the process and a process error. The
  operating system decides which events arrive and in which order, so the sequence of
  events of one spawned process is an input of the model. The promise resolves at the
  first close or error event; a sequence without one is a promise that never resolves,
  the result \<open>None\<close>.
\<close>

datatype procEvent =
    StdoutData jsstring
  | StderrData jsstring
  | TimerFired
  | Close "int option"
  | ProcError jsstring

text \<open>
  What the evaluator does to the outside world, in order: the record of the calls of
  \<open>evaluate\<close>, of the processes spawned (full command line, working directory, timeout)
  and of the signals sent.
\<close>

datatype action =
    Evaluate SuccessCriteria
  | Spawn jsstring "jsstring option" int
  | KillSIGTERM

fun isSpawn :: "action \<Rightarrow> bool" where
  "isSpawn (Spawn _ _ _) = True"
| "isSpawn _ = False"

text \<open>
  The behaviour of the operating system: the events of the \<open>n\<close>-th process spawned, given
  its command line, working directory and timeout.
\<close>

type_synonym procBehaviour = "nat \<Rightarrow> jsstring \<Rightarrow> jsstring option \<Rightarrow> int \<Rightarrow> procEvent list"

record execResult =
  resExitCode :: int
  stdout :: jsstring
  stderr :: jsstring

record execState =
  outBuf :: jsstring
  errBuf :: jsstring
  killed :: bool
  log :: "action list"

fun runEvents :: "procEvent list \<Rightarrow> execState \<Rightarrow> (execResult \<times> action list) option" where
  "runEvents [] st = None"
| "runEvents (StdoutData d # es) st = runEvents es (st\<lparr>outBuf := outBuf st @ d\<rparr>)"
| "runEvents (StderrData d # es) st = runEvents es (st\<lparr>errBuf := errBuf st @ d\<rparr>)"
| "runEvents (TimerFired # es) st =
     runEvents es (st\<lparr>killed := True, log := log st @ [KillSIGTERM]\<rparr>)"
| "runEvents (Close code # es) st =
     Some (\<lparr>resExitCode = (if killed st then - 1 else (case code of None \<Rightarrow> 1 | Some c \<Rightarrow> c)),
            stdout = outBuf st, stderr = errBuf st\<rparr>, log st)"
| "runEvents (ProcError message # es) st =
     Some (\<lparr>resExitCode = 1, stdout = [], stderr = message\<rparr>, log st)"

text \<open>The command line handed to the shell.\<close>

definition fullCommand :: "jsstring \<Rightarrow> jsstring list \<Rightarrow> jsstring" where
  "fullCommand cmd cargs =
     (if length cargs > 0 then cmd @ js '' '' @ joinStrings (js '' '') cargs else cmd)"

definition executeCommand ::
  "procBehaviour \<Rightarrow> action list \<Rightarrow> jsstring \<Rightarrow> jsstring list \<Rightarrow> EvaluationOptions
     \<Rightarrow> (execResult \<times> action list) option" where
  "executeCommand proc w cmd cargs options =
     (let tmo = (case optTimeout options of None \<Rightarrow> DEFAULT_TIMEOUT | Some t \<Rightarrow> t);
          events = proc (length (filter isSpawn w)) (fullCommand cmd cargs) (cwd options) tmo
      in runEvents events
           \<lparr>outBuf = [], errBuf = [], killed = False,
            log = w @ [Spawn (fullCommand cmd cargs) (cwd options) tmo]\<rparr>)"

subsection \<open>Suggestions\<close>

definition failedTestRx :: regex where
  "failedTestRx = Seq (lit ''FAIL'') (Seq (Plus Space) (Plus WordDotSlash))"

definition tsErrorRx :: regex where
  "tsErrorRx = Seq (lit ''TS'') (Seq (Plus Digit) (Chr 0x3A))"

definition extractSuggestions :: "SuccessCriteriaType \<Rightarrow> jsstring \<Rightarrow> jsstring \<Rightarrow> jsstring list" where
  "extractSuggestions criteriaType out err =
     (let outp = out @ err;
          s1 = (if criteriaType = test_pass then
                  (let failedTests = map (substring outp) (matchAll False failedTestRx outp 0)
                   in (if failedTests \<noteq> [] then
                         [js ''Fix failing tests: '' @ joinStrings (js '', '') (take 3 failedTests)]
                       else [])
                      @ (if includesStr outp (js ''TypeError'') \<or> includesStr outp (js ''ReferenceError'')
                         then [js ''Check for runtime errors in test files''] else []))
                else []);
          s2 = (if criteriaType = build_success then
                  (if includesStr outp (js ''Cannot find module'')
                   then [js ''Install missing dependencies''] else [])
                  @ (if includesStr outp (js ''SyntaxError'')
                     then [js ''Fix syntax errors in source files''] else [])
                else []);
          s3 = (if criteriaType = type_check then
                  (let tsErrors = map (substring outp) (matchAll False tsErrorRx outp 0)
                   in if tsErrors \<noteq> [] then
                        [js ''Fix TypeScript errors: ''
                           @ joinStrings (js '', '') (take 3 (uniqueInOrder tsErrors))]
                      else [])
                else []);
          s4 = (if criteriaType = lint_clean then
                  (if includesStr outp (js ''error'') then [js ''Fix linting errors''] else [])
                  @ (if includesStr outp (js ''warning'')
                     then [js ''Consider fixing linting warnings''] else [])
                else [])
      in s1 @ s2 @ s3 @ s4)"

subsection \<open>evaluate and evaluateAll\<close>

text \<open>\<open>criteria.timeout ?? options.timeout ?? DEFAULT_TIMEOUT\<close>.\<close>

definition resolveTimeout :: "SuccessCriteria \<Rightarrow> EvaluationOptions \<Rightarrow> int" where
  "resolveTimeout criteria options =
     (case timeout criteria of
        Some t \<Rightarrow> t
      | None \<Rightarrow> (case optTimeout options of Some t \<Rightarrow> t | None \<Rightarrow> DEFAULT_TIMEOUT))"

definition evaluate ::
  "procBehaviour \<Rightarrow> action list \<Rightarrow> SuccessCriteria \<Rightarrow> EvaluationOptions
     \<Rightarrow> (EvaluationResult \<times> action list) option" where
  "evaluate proc w0 criteria options =
     (let w = w0 @ [Evaluate criteria];
          commandConfig = getCommandConfig criteria
      in if ctype criteria = custom \<and> \<not> truthy (configCommand commandConfig) then
           Some (\<lparr>success = False, evalOutput = [],
                  evalReason = js ''Custom criteria requires a command'',
                  exitCode = None, suggestions = None\<rparr>, w)
         else if \<not> truthy (configCommand commandConfig) then
           Some (\<lparr>success = False, evalOutput = [], evalReason = js ''No command specified'',
                  exitCode = None, suggestions = None\<rparr>, w)
         else
           let tmo = resolveTimeout criteria options
           in case executeCommand proc w (configCommand commandConfig) (args commandConfig)
                     (options\<lparr>optTimeout := Some tmo\<rparr>) of
                None \<Rightarrow> None
              | Some (result, w1) \<Rightarrow>
                  if resExitCode result = - 1 then
                    Some (\<lparr>success = False, evalOutput = stdout result @ stderr result,
                           evalReason = js ''Command timed out'', exitCode = Some (- 1),
                           suggestions = Some [js ''Increase timeout or optimize the command'']\<rparr>,
                          w1)
                  else
                    let expected = (case expectedExitCode criteria of None \<Rightarrow> 0 | Some e \<Rightarrow> e);
                        ok = (resExitCode result = expected);
                        sugg = (if ok then None
                                else Some (extractSuggestions (ctype criteria)
                                             (stdout result) (stderr result)));
                        rsn = (if ok then typeName (ctype criteria) @ js '' passed''
                               else typeName (ctype criteria) @ js '' failed with exit code ''
                                      @ show_int (resExitCode result))
                    in Some (\<lparr>success = ok, evalOutput = stdout result @ stderr result,
                              evalReason = rsn, exitCode = Some (resExitCode result),
                              suggestions = (case sugg of
                                               None \<Rightarrow> None
                                             | Some l \<Rightarrow> if l \<noteq> [] then Some l else None)\<rparr>,
                             w1))"

text \<open>One block of the combined output: the type in brackets, a line feed, the output.\<close>

definition outputBlock :: "SuccessCriteria \<Rightarrow> EvaluationResult \<Rightarrow> jsstring" where
  "outputBlock criterion result =
     js ''['' @ typeName (ctype criterion) @ js '']\<newline>'' @ evalOutput result"

text \<open>
  The loop of \<open>evaluateAll\<close> over the criteria still to evaluate, with the arrays
  \<open>allOutput\<close> and \<open>allSuggestions\<close> filled so far; \<open>len\<close> is \<open>criteria.length\<close>.
\<close>

fun evaluateAllLoop ::
  "procBehaviour \<Rightarrow> EvaluationOptions \<Rightarrow> nat \<Rightarrow> SuccessCriteria list \<Rightarrow> jsstring list
     \<Rightarrow> jsstring list \<Rightarrow> action list \<Rightarrow> (EvaluationResult \<times> action list) option" where
  "evaluateAllLoop proc options len [] allOutput allSuggestions w =
     Some (\<lparr>success = True, evalOutput = joinStrings (js ''\<newline>\<newline>'') allOutput,
            evalReason = js ''All '' @ show_nat len @ js '' criteria passed'',
            exitCode = None, suggestions = None\<rparr>, w)"
| "evaluateAllLoop proc options len (criterion # rest) allOutput allSuggestions w =
     (case evaluate proc w criterion options of
        None \<Rightarrow> None
      | Some (result, w1) \<Rightarrow>
          let allOutput1 = allOutput @ [outputBlock criterion result];
              allSuggestions1 = allSuggestions
                 @ (case suggestions result of None \<Rightarrow> [] | Some l \<Rightarrow> l)
          in if \<not> success result then
               Some (\<lparr>success = False, evalOutput = joinStrings (js ''\<newline>\<newline>'') allOutput1,
                      evalReason = evalReason result, exitCode = exitCode result,
                      suggestions = (if allSuggestions1 \<noteq> [] then Some allSuggestions1
                                     else None)\<rparr>, w1)
             else evaluateAllLoop proc options len rest allOutput1 allSuggestions1 w1)"

definition evaluateAll ::
  "procBehaviour \<Rightarrow> action list \<Rightarrow> SuccessCriteria list \<Rightarrow> EvaluationOptions
     \<Rightarrow> (EvaluationResult \<times> action list) option" where
  "evaluateAll proc w criteria options =
     (if length criteria = 0 then
        Some (\<lparr>success = True, evalOutput = [], evalReason = js ''No criteria to evaluate'',
               exitCode = None, suggestions = None\<rparr>, w)
      else evaluateAllLoop proc options (length criteria) criteria [] [] w)"

subsection \<open>Vocabulary for the properties of the evaluator\<close>




text \<open>A process ends when it closes or reports an error.\<close>

fun isEnd :: "procEvent \<Rightarrow> bool" where
  "isEnd (Close _) = True"
| "isEnd (ProcError _) = True"
| "isEnd _ = False"

text \<open>The criteria on which \<open>evaluate\<close> has been called, in order, and the processes spawned.\<close>

fun evaluatedCriteria :: "action list \<Rightarrow> SuccessCriteria list" where
  "evaluatedCriteria [] = []"
| "evaluatedCriteria (Evaluate c # as) = c # evaluatedCriteria as"
| "evaluatedCriteria (_ # as) = evaluatedCriteria as"

text \<open>
  The reference against which \<open>evaluateAll\<close> is compared: \<open>evaluate\<close> called on each
  criterion of a list in turn, whatever the results, the world handed from one call to
  the next.
\<close>

fun evaluateEach ::
  "procBehaviour \<Rightarrow> EvaluationOptions \<Rightarrow> SuccessCriteria list \<Rightarrow> action list
     \<Rightarrow> (EvaluationResult list \<times> action list) option" where
  "evaluateEach proc options [] w = Some ([], w)"
| "evaluateEach proc options (c # cs) w =
     (case evaluate proc w c options of
        None \<Rightarrow> None
      | Some (r, w1) \<Rightarrow>
          (case evaluateEach proc options cs w1 of
             None \<Rightarrow> None
           | Some (rs, w2) \<Rightarrow> Some (r # rs, w2)))"

section \<open>Loop engine (engine.ts, first part)\<close>

subsection \<open>Records of the loop\<close>

datatype LoopStatus = status_running | status_success | status_failed | status_stopped

text \<open>
  A row of the table of loop runs. The column \<open>criteria\<close> of the source holds the
  criteria as a JSON string; the model keeps the list that the string encodes.
\<close>

record LoopRun =
  lr_id :: jsstring
  lr_session_id :: jsstring
  lr_task :: jsstring
  lr_criteria :: "SuccessCriteria list"
  lr_status :: LoopStatus
  lr_iterations :: int
  lr_max_iterations :: int
  lr_started_at :: jsstring
  lr_ended_at :: "jsstring option"
  lr_snapshot_path :: "jsstring option"

datatype ObservationType = ot_tool_use | ot_bash | ot_error | ot_success | ot_note

record CreateObservation =
  obs_session_id :: jsstring
  obs_type :: ObservationType
  obs_content :: jsstring
  obs_importance :: real
  obs_loop_run_id :: jsstring
  obs_iteration :: int

record LoopOptions =
  opt_criteria :: "SuccessCriteria list option"
  opt_maxIterations :: "int option"
  opt_cooldownMs :: "int option"

datatype LoopResultReason = reason_success | reason_max_iterations | reason_stopped | reason_error

record LoopResult =
  res_success :: bool
  res_iterations :: int
  res_reason :: LoopResultReason
  loopRunId :: jsstring
  res_error :: "jsstring option"

record IterationContext =
  ctx_iteration :: int
  ctx_task :: jsstring
  ctx_loopRunId :: jsstring

record IterationResult =
  it_success :: bool
  it_output :: "jsstring option"
  it_error :: "jsstring option"

text \<open>The part \<open>config.ralph\<close> of the configuration that \<open>start\<close> reads.\<close>

record RalphConfig =
  success_criteria :: "SuccessCriteria list"
  cfg_max_iterations :: int
  cooldown_ms :: int

subsection \<open>The database client\<close>

record database =
  loop_runs :: "LoopRun list"
  observations :: "CreateObservation list"
  next_id :: nat

text \<open>
  Modelled from the spec: the database client (\<open>core/db/client\<close>) is not among the
  sources. The engine uses five of its operations. Following the data model of the spec
  and the calls in the engine and the tests: a created run is Running with no iterations
  and no end date, under an identifier that no other run has; the active run of a session
  is a run of that session whose status is Running; an update overwrites the given
  columns of the run with the given identifier; observations are appended.
\<close>

definition getActiveLoopRun :: "database \<Rightarrow> jsstring \<Rightarrow> LoopRun option" where
  "getActiveLoopRun d sid =
     find (\<lambda>r. lr_session_id r = sid \<and> lr_status r = status_running) (loop_runs d)"

definition getLoopRun :: "database \<Rightarrow> jsstring \<Rightarrow> LoopRun option" where
  "getLoopRun d rid = find (\<lambda>r. lr_id r = rid) (loop_runs d)"

definition createLoopRun ::
  "database \<Rightarrow> jsstring \<Rightarrow> jsstring \<Rightarrow> jsstring \<Rightarrow> SuccessCriteria list \<Rightarrow> int
     \<Rightarrow> LoopRun \<times> database" where
  "createLoopRun d clock sid tsk crit maxIter =
     (let run = \<lparr>lr_id = js ''loop-'' @ show_nat (next_id d), lr_session_id = sid,
                  lr_task = tsk, lr_criteria = crit, lr_status = status_running,
                  lr_iterations = 0, lr_max_iterations = maxIter, lr_started_at = clock,
                  lr_ended_at = None, lr_snapshot_path = None\<rparr>
      in (run, d\<lparr>loop_runs := loop_runs d @ [run], next_id := Suc (next_id d)\<rparr>))"

definition updateLoopRun :: "database \<Rightarrow> jsstring \<Rightarrow> (LoopRun \<Rightarrow> LoopRun) \<Rightarrow> database" where
  "updateLoopRun d rid patch =
     d\<lparr>loop_runs := map (\<lambda>r. if lr_id r = rid then patch r else r) (loop_runs d)\<rparr>"

definition createObservation :: "database \<Rightarrow> CreateObservation \<Rightarrow> database" where
  "createObservation d ob = d\<lparr>observations := observations d @ [ob]\<rparr>"

subsection \<open>The engine\<close>

text \<open>
  What the iteration callback does when it is awaited: it returns a result or it throws;
  a thrown value is represented by its message.
\<close>

datatype callbackOutcome = Returns IterationResult | Throws jsstring

text \<open>
  The three observer hooks are functions of the host that return nothing. What the engine
  can see of a call is whether it returns or throws.
\<close>

datatype hookOutcome = HookReturns | HookThrows jsstring

text \<open>The calls of the hooks are recorded in order.\<close>

datatype notification =
    IterationStart IterationContext
  | IterationEnd IterationContext IterationResult
  | Complete LoopResult

text \<open>
  The variables of the closure of \<open>createLoopEngine\<close>, with the database, the session and
  the configuration it was created for, the reading of the clock, and the record of hook
  calls. Each of the four callback slots is empty or holds the function registered last.
\<close>

record engine =
  sessionId :: jsstring
  config :: RalphConfig
  clock :: jsstring
  db :: database
  currentLoopRun :: "LoopRun option"
  stopRequested :: bool
  iterationCallback :: "(IterationContext \<Rightarrow> callbackOutcome) option"
  completeCallback :: "(LoopResult \<Rightarrow> hookOutcome) option"
  iterationStartCallback :: "(IterationContext \<Rightarrow> hookOutcome) option"
  iterationEndCallback :: "(IterationContext \<Rightarrow> IterationResult \<Rightarrow> hookOutcome) option"
  currentIteration :: int
  notifications :: "notification list"

text \<open>
  \<open>start\<close> gives control away where it awaits the iteration callback and where it awaits
  the cooldown, and there the host can call \<open>stop\<close> during a run. The host is described
  by the passes in which it does so.
\<close>

record host =
  stopInCallback :: "int \<Rightarrow> bool"
  stopInCooldown :: "int \<Rightarrow> bool"

definition endLoopRun :: "LoopStatus \<Rightarrow> engine \<Rightarrow> engine" where
  "endLoopRun st e =
     (case currentLoopRun e of
        None \<Rightarrow> e
      | Some run \<Rightarrow>
          let d = updateLoopRun (db e) (lr_id run)
                    (\<lambda>r. r\<lparr>lr_status := st, lr_ended_at := Some (clock e)\<rparr>)
          in e\<lparr>db := d, currentLoopRun := getLoopRun d (lr_id run)\<rparr>)"

definition statusText :: "LoopResultReason \<Rightarrow> jsstring" where
  "statusText r =
     (if r = reason_success then [0xC131, 0xACF5]
      else if r = reason_max_iterations then
        [0xCD5C, 0xB300, 0x20, 0xBC18, 0xBCF5, 0x20, 0xB3C4, 0xB2EC]
      else if r = reason_stopped then [0xC911, 0xB2E8, 0xB428]
      else [0xC624, 0xB958])"

definition createLoopSummary :: "jsstring \<Rightarrow> jsstring \<Rightarrow> LoopResult \<Rightarrow> engine \<Rightarrow> engine" where
  "createLoopSummary rid tsk result e =
     (let content = trim
            (js ''Ralph Loop '' @ [0xC644, 0xB8CC] @ js ''\<newline>''
             @ [0xD0DC, 0xC2A4, 0xD06C] @ js '': '' @ tsk @ js ''\<newline>''
             @ [0xC0C1, 0xD0DC] @ js '': '' @ statusText (res_reason result) @ js ''\<newline>''
             @ [0xBC18, 0xBCF5] @ js '': '' @ show_int (res_iterations result) @ [0xD68C]
             @ js ''\<newline>''
             @ (case res_error result of
                  None \<Rightarrow> []
                | Some err \<Rightarrow> if truthy err then [0xC624, 0xB958] @ js '': '' @ err else []))
      in e\<lparr>db := createObservation (db e)
             \<lparr>obs_session_id = sessionId e,
              obs_type = (if res_success result then ot_success else ot_note),
              obs_content = content,
              obs_importance = (if res_success result then 0.9 else 0.7),
              obs_loop_run_id = rid,
              obs_iteration = res_iterations result\<rparr>\<rparr>)"

text \<open>
  A call of a hook, \<open>if (hook) hook(...)\<close>: nothing happens when the slot is empty;
  otherwise the call is recorded and either returns or throws. The second component is
  the message of what was thrown, if anything was.
\<close>

definition callComplete :: "engine \<Rightarrow> LoopResult \<Rightarrow> engine \<times> jsstring option" where
  "callComplete e result =
     (case completeCallback e of
        None \<Rightarrow> (e, None)
      | Some hook \<Rightarrow>
          (e\<lparr>notifications := notifications e @ [Complete result]\<rparr>,
           case hook result of HookReturns \<Rightarrow> None | HookThrows thrown \<Rightarrow> Some thrown))"

definition callIterationStart :: "engine \<Rightarrow> IterationContext \<Rightarrow> engine \<times> jsstring option" where
  "callIterationStart e iterationContext =
     (case iterationStartCallback e of
        None \<Rightarrow> (e, None)
      | Some hook \<Rightarrow>
          (e\<lparr>notifications := notifications e @ [IterationStart iterationContext]\<rparr>,
           case hook iterationContext of HookReturns \<Rightarrow> None | HookThrows thrown \<Rightarrow> Some thrown))"

definition callIterationEnd ::
  "engine \<Rightarrow> IterationContext \<Rightarrow> IterationResult \<Rightarrow> engine \<times> jsstring option" where
  "callIterationEnd e iterationContext iterationResult =
     (case iterationEndCallback e of
        None \<Rightarrow> (e, None)
      | Some hook \<Rightarrow>
          (e\<lparr>notifications := notifications e @ [IterationEnd iterationContext iterationResult]\<rparr>,
           case hook iterationContext iterationResult of
             HookReturns \<Rightarrow> None
           | HookThrows thrown \<Rightarrow> Some thrown))"

definition stop :: "engine \<Rightarrow> engine" where
  "stop e =
     (let e1 = e\<lparr>stopRequested := True\<rparr>
      in case currentLoopRun e1 of
           None \<Rightarrow> e1
         | Some run \<Rightarrow> if lr_status run = status_running then endLoopRun status_stopped e1 else e1)"

text \<open>
  The \<open>catch\<close> block of \<open>start\<close>, entered with the value of \<open>iteration\<close> at the throw and
  the message of what was thrown. It calls the completion hook outside any \<open>try\<close>: when
  the hook throws here, \<open>start\<close> rejects with what the hook threw, the left case.
\<close>

definition catchError ::
  "jsstring \<Rightarrow> jsstring \<Rightarrow> int \<Rightarrow> jsstring \<Rightarrow> engine \<Rightarrow> engine \<times> (jsstring + LoopResult)" where
  "catchError rid tsk iteration errorMessage e =
     (let e1 = endLoopRun status_failed e;
          result = \<lparr>res_success = False, res_iterations = iteration, res_reason = reason_error,
                    loopRunId = rid, res_error = Some errorMessage\<rparr>;
          e2 = createLoopSummary rid tsk result e1;
          e3 = fst (callComplete e2 result)
      in case snd (callComplete e2 result) of
           None \<Rightarrow> (e3, Inr result)
         | Some thrown \<Rightarrow> (e3, Inl thrown))"

text \<open>
  The common end of the three paths of the \<open>try\<close> block that return a result: the run is
  ended, the summary written and the completion hook called. A throw of the hook here is
  inside the \<open>try\<close> and enters the \<open>catch\<close> block; \<open>iteration\<close> is then the number of
  iterations of the result.
\<close>

definition finish ::
  "LoopStatus \<Rightarrow> jsstring \<Rightarrow> jsstring \<Rightarrow> LoopResult \<Rightarrow> engine
     \<Rightarrow> engine \<times> (jsstring + LoopResult)" where
  "finish st rid tsk result e =
     (let e1 = endLoopRun st e;
          e2 = createLoopSummary rid tsk result e1;
          e3 = fst (callComplete e2 result)
      in case snd (callComplete e2 result) of
           None \<Rightarrow> (e3, Inr result)
         | Some thrown \<Rightarrow> catchError rid tsk (res_iterations result) thrown e3)"

text \<open>
  The \<open>while\<close> loop of \<open>start\<close> with what follows it. \<open>iteration\<close> and \<open>lastError\<close> are
  the two local variables of \<open>start\<close>.
\<close>

function mainLoop ::
  "host \<Rightarrow> jsstring \<Rightarrow> int \<Rightarrow> int \<Rightarrow> jsstring \<Rightarrow> int \<Rightarrow> jsstring option \<Rightarrow> engine
     \<Rightarrow> engine \<times> (jsstring + LoopResult)" where
  "mainLoop h tsk maxIter cooldownMs rid iteration lastError e =
     (if iteration < maxIter then
        if stopRequested e then
          finish status_stopped rid tsk
            \<lparr>res_success = False, res_iterations = iteration, res_reason = reason_stopped,
             loopRunId = rid, res_error = None\<rparr> e
        else
          let iteration1 = iteration + 1;
              e1 = e\<lparr>currentIteration := iteration1\<rparr>;
              e2 = e1\<lparr>db := updateLoopRun (db e1) rid (\<lambda>r. r\<lparr>lr_iterations := iteration1\<rparr>)\<rparr>;
              iterationContext =
                \<lparr>ctx_iteration = iteration1, ctx_task = tsk, ctx_loopRunId = rid\<rparr>;
              e3 = fst (callIterationStart e2 iterationContext)
          in case snd (callIterationStart e2 iterationContext) of
               Some thrown \<Rightarrow> catchError rid tsk iteration1 thrown e3
             | None \<Rightarrow>
                 (case iterationCallback e3 of
                    None \<Rightarrow>
                      catchError rid tsk iteration1
                        (js ''No iteration callback set. Call onIteration() before start().'') e3
                  | Some callback \<Rightarrow>
                      let e4 = (if stopInCallback h iteration1 then stop e3 else e3)
                      in case callback iterationContext of
                           Throws errorMessage \<Rightarrow> catchError rid tsk iteration1 errorMessage e4
                         | Returns iterationResult \<Rightarrow>
                             let e5 = fst (callIterationEnd e4 iterationContext iterationResult)
                             in case snd (callIterationEnd e4 iterationContext iterationResult) of
                                  Some thrown \<Rightarrow> catchError rid tsk iteration1 thrown e5
                                | None \<Rightarrow>
                                    if it_success iterationResult then
                                      finish status_success rid tsk
                                        \<lparr>res_success = True, res_iterations = iteration1,
                                         res_reason = reason_success, loopRunId = rid,
                                         res_error = None\<rparr> e5
                                    else
                                      let lastError1 =
                                            (case it_error iterationResult of
                                               None \<Rightarrow> lastError
                                             | Some err \<Rightarrow>
                                                 if truthy err then Some err else lastError);
                                          e6 = (if iteration1 < maxIter \<and> \<not> stopRequested e5
                                                then (if stopInCooldown h iteration1
                                                      then stop e5 else e5)
                                                else e5)
                                      in mainLoop h tsk maxIter cooldownMs rid iteration1
                                           lastError1 e6)
      else
        finish status_failed rid tsk
          \<lparr>res_success = False, res_iterations = iteration, res_reason = reason_max_iterations,
           loopRunId = rid, res_error = lastError\<rparr> e)"
  by pat_completeness auto
termination
  by (relation "measure (\<lambda>(h, tsk, maxIter, cooldownMs, rid, iteration, lastError, e).
                           nat (maxIter - iteration))") auto

declare mainLoop.simps [simp del]

text \<open>
  \<open>start\<close> either rejects, the left case with the message of the error, or resolves with
  a result. It rejects before it has changed anything when a run of the session is
  Running, and at its end when the completion hook throws in the \<open>catch\<close> block.
\<close>

definition start ::
  "host \<Rightarrow> engine \<Rightarrow> jsstring \<Rightarrow> LoopOptions \<Rightarrow> engine \<times> (jsstring + LoopResult)" where
  "start h e tsk loopOptions =
     (case getActiveLoopRun (db e) (sessionId e) of
        Some activeRun \<Rightarrow>
          (e, Inl (js ''Loop already running: '' @ lr_id activeRun
                     @ js ''. Stop it first with stop().''))
      | None \<Rightarrow>
          let e1 = e\<lparr>stopRequested := False\<rparr>;
              crit = (case opt_criteria loopOptions of
                        Some c \<Rightarrow> c | None \<Rightarrow> success_criteria (config e1));
              maxIter = (case opt_maxIterations loopOptions of
                           Some m \<Rightarrow> m | None \<Rightarrow> cfg_max_iterations (config e1));
              cooldownMs = (case opt_cooldownMs loopOptions of
                              Some c \<Rightarrow> c | None \<Rightarrow> cooldown_ms (config e1));
              (run, d) = createLoopRun (db e1) (clock e1) (sessionId e1) tsk crit maxIter;
              e2 = e1\<lparr>db := d, currentLoopRun := Some run\<rparr>
          in mainLoop h tsk maxIter cooldownMs (lr_id run) 0 None e2)"

definition isRunning :: "engine \<Rightarrow> bool" where
  "isRunning e = (case currentLoopRun e of None \<Rightarrow> False | Some run \<Rightarrow> lr_status run = status_running)"

definition onIteration :: "(IterationContext \<Rightarrow> callbackOutcome) \<Rightarrow> engine \<Rightarrow> engine" where
  "onIteration callback e = e\<lparr>iterationCallback := Some callback\<rparr>"



definition onIterationEnd ::
  "(IterationContext \<Rightarrow> IterationResult \<Rightarrow> hookOutcome) \<Rightarrow> engine \<Rightarrow> engine" where
  "onIterationEnd callback e = e\<lparr>iterationEndCallback := Some callback\<rparr>"

text \<open>An engine as \<open>createLoopEngine\<close> returns it, on a given database.\<close>

definition createLoopEngine :: "jsstring \<Rightarrow> RalphConfig \<Rightarrow> jsstring \<Rightarrow> database \<Rightarrow> engine" where
  "createLoopEngine sid cfg clk d =
     \<lparr>sessionId = sid, config = cfg, clock = clk, db = d, currentLoopRun = None,
      stopRequested = False, iterationCallback = None, completeCallback = None,
      iterationStartCallback = None, iterationEndCallback = None, currentIteration = 0,
      notifications = []\<rparr>"

subsection \<open>Sample inputs\<close>

text \<open>
  A configuration with the defaults of the spec, an engine just created on an empty
  database, a host that never calls \<open>stop\<close> during a run, and a call without options.
\<close>

definition sampleConfig :: RalphConfig where
  "sampleConfig = \<lparr>success_criteria = [], cfg_max_iterations = 10, cooldown_ms = 1000\<rparr>"

definition sampleEngine :: engine where
  "sampleEngine =
     createLoopEngine (js ''session-1'') sampleConfig (js ''2025-01-17T00:00:00.000Z'')
       \<lparr>loop_runs = [], observations = [], next_id = 0\<rparr>"

definition quietHost :: host where
  "quietHost = \<lparr>stopInCallback = (\<lambda>i. False), stopInCooldown = (\<lambda>i. False)\<rparr>"

definition noOptions :: LoopOptions where
  "noOptions = \<lparr>opt_criteria = None, opt_maxIterations = None, opt_cooldownMs = None\<rparr>"


text \<open>A callback that fails every time, and one that succeeds from the second pass on.\<close>

definition alwaysFails :: "IterationContext \<Rightarrow> callbackOutcome" where
  "alwaysFails c = Returns \<lparr>it_success = False, it_output = None, it_error = None\<rparr>"

definition succeedsFromSecond :: "IterationContext \<Rightarrow> callbackOutcome" where
  "succeedsFromSecond c =
     Returns \<lparr>it_success = (ctx_iteration c \<ge> 2), it_output = None, it_error = None\<rparr>"


text \<open>A host that calls \<open>stop\<close> while the callback of the second pass is in flight.\<close>

definition stopsInSecondPass :: host where
  "stopsInSecondPass = \<lparr>stopInCallback = (\<lambda>i. i = 2), stopInCooldown = (\<lambda>i. False)\<rparr>"







section \<open>Snapshot manager (features/ralph/snapshot.ts)\<close>

subsection \<open>The file system\<close>

text \<open>
  A path is the list of its segments from the root, and a relative path the list of its
  segments. \<open>join\<close> of a directory and a relative path is then the concatenation;
  the segments \<open>.\<close> and \<open>..\<close>, which \<open>join\<close> would resolve, are not modelled, and the
  file names that \<open>create\<close> writes into a manifest, which come from the change-tracking
  tool, have none. The file system is the map from the paths that exist to what is
  there; the root always exists and is a directory.
\<close>

type_synonym path = "jsstring list"

datatype node = File jsstring | Dir

type_synonym filesystem = "path \<rightharpoonup> node"

datatype fsError = ENOENT | ENOTDIR | EISDIR | EEXIST

definition joinPath :: "path \<Rightarrow> path \<Rightarrow> path" where
  "joinPath p rel = p @ rel"

definition dirname :: "path \<Rightarrow> path" where
  "dirname p = butlast p"

definition existsSync :: "filesystem \<Rightarrow> path \<Rightarrow> bool" where
  "existsSync fs p = (p = [] \<or> fs p \<noteq> None)"

definition isDirectory :: "filesystem \<Rightarrow> path \<Rightarrow> bool" where
  "isDirectory fs p = (p = [] \<or> fs p = Some Dir)"

text \<open>
  \<open>mkdirSync(p, {recursive: true})\<close> walks down from the root and creates every
  directory on the way that does not exist. It fails when it meets a file.
\<close>

fun mkdirs :: "filesystem \<Rightarrow> path \<Rightarrow> path list \<Rightarrow> fsError + filesystem" where
  "mkdirs fs p [] = Inr fs"
| "mkdirs fs p (q # qs) =
     (case fs q of
        Some (File _) \<Rightarrow> Inl (if q = p then EEXIST else ENOTDIR)
      | Some Dir \<Rightarrow> mkdirs fs p qs
      | None \<Rightarrow> mkdirs (fs(q \<mapsto> Dir)) p qs)"

definition mkdirSync :: "filesystem \<Rightarrow> path \<Rightarrow> fsError + filesystem" where
  "mkdirSync fs p = mkdirs fs p (map (\<lambda>n. take n p) [1..<Suc (length p)])"

text \<open>
  \<open>copyFileSync(src, dest)\<close> needs a file at \<open>src\<close> and a directory to hold \<open>dest\<close>,
  and overwrites a file at \<open>dest\<close>.
\<close>

definition copyFileSync :: "filesystem \<Rightarrow> path \<Rightarrow> path \<Rightarrow> fsError + filesystem" where
  "copyFileSync fs src dest =
     (case (if src = [] then Some Dir else fs src) of
        None \<Rightarrow> Inl ENOENT
      | Some Dir \<Rightarrow> Inl EISDIR
      | Some (File content) \<Rightarrow>
          if isDirectory fs dest then Inl EISDIR
          else if \<not> isDirectory fs (dirname dest) then
            Inl (if existsSync fs (dirname dest) then ENOTDIR else ENOENT)
          else Inr (fs(dest \<mapsto> File content)))"

definition readFileSync :: "filesystem \<Rightarrow> path \<Rightarrow> fsError + jsstring" where
  "readFileSync fs p =
     (case (if p = [] then Some Dir else fs p) of
        None \<Rightarrow> Inl ENOENT
      | Some Dir \<Rightarrow> Inl EISDIR
      | Some (File content) \<Rightarrow> Inr content)"

subsection \<open>restore\<close>

text \<open>
  The errors that \<open>restore\<close> can end with: its own two, ``Snapshot not found'' and
  ``Invalid snapshot: missing metadata'', each with the path it names; a manifest that
  does not parse; and an error of the file system.
\<close>

datatype restoreError =
    SnapshotNotFound path
  | InvalidSnapshot path
  | ManifestSyntaxError
  | FileSystemError fsError

definition metaName :: jsstring where
  "metaName = js ''.snapshot-meta.json''"

text \<open>
  The loop of \<open>restore\<close> over the files of the manifest. It changes the file system as it
  goes, so it returns the file system it has reached together with the error, if any,
  that ended it.
\<close>

fun restoreFiles ::
  "path \<Rightarrow> path \<Rightarrow> path list \<Rightarrow> filesystem \<Rightarrow> filesystem \<times> restoreError option" where
  "restoreFiles projectPath snapshotPath [] fs = (fs, None)"
| "restoreFiles projectPath snapshotPath (file # files) fs =
     (let srcPath = joinPath snapshotPath file;
          destPath = joinPath projectPath file
      in if existsSync fs srcPath then
           (case mkdirSync fs (dirname destPath) of
              Inl err \<Rightarrow> (fs, Some (FileSystemError err))
            | Inr fs1 \<Rightarrow>
                (case copyFileSync fs1 srcPath destPath of
                   Inl err \<Rightarrow> (fs1, Some (FileSystemError err))
                 | Inr fs2 \<Rightarrow> restoreFiles projectPath snapshotPath files fs2))
         else restoreFiles projectPath snapshotPath files fs)"

text \<open>
  \<open>restore\<close> of the manager created for \<open>projectPath\<close>. The first parameter stands for
  \<open>JSON.parse(text).files || []\<close>: the list of relative paths that the text of a
  manifest holds, or nothing when the text does not parse.
\<close>

definition restore ::
  "(jsstring \<Rightarrow> path list option) \<Rightarrow> path \<Rightarrow> filesystem \<Rightarrow> path
     \<Rightarrow> filesystem \<times> restoreError option" where
  "restore manifestFiles projectPath fs snapshotPath =
     (if \<not> existsSync fs snapshotPath then (fs, Some (SnapshotNotFound snapshotPath))
      else
        let metaPath = joinPath snapshotPath [metaName]
        in if \<not> existsSync fs metaPath then (fs, Some (InvalidSnapshot snapshotPath))
           else
             (case readFileSync fs metaPath of
                Inl err \<Rightarrow> (fs, Some (FileSystemError err))
              | Inr text \<Rightarrow>
                  (case manifestFiles text of
                     None \<Rightarrow> (fs, Some ManifestSyntaxError)
                   | Some files \<Rightarrow> restoreFiles projectPath snapshotPath files fs)))"

subsection \<open>A sample working tree and snapshot\<close>

text \<open>
  A project with one modified file, and a snapshot of it whose manifest lists three
  files, of which the second is no longer in the snapshot.
\<close>

definition sampleFs :: filesystem where
  "sampleFs =
     [[js ''proj''] \<mapsto> Dir,
      [js ''proj'', js ''a.txt''] \<mapsto> File (js ''modified''),
      [js ''snap''] \<mapsto> Dir,
      [js ''snap'', metaName] \<mapsto> File (js ''manifest''),
      [js ''snap'', js ''a.txt''] \<mapsto> File (js ''original''),
      [js ''snap'', js ''src''] \<mapsto> Dir,
      [js ''snap'', js ''src'', js ''b.ts''] \<mapsto> File (js ''b'')]"

definition sampleFiles :: "path list" where
  "sampleFiles = [[js ''a.txt''], [js ''gone.txt''], [js ''src'', js ''b.ts'']]"

definition sampleManifest :: "jsstring \<Rightarrow> path list option" where
  "sampleManifest text = (if text = js ''manifest'' then Some sampleFiles else None)"

section \<open>Properties of the stop conditions\<close>

text \<open>
  Claim C3. For every state, every set of conditions and every clock reading,
  \<open>shouldStop\<close> reports the first matching reason in the order max_iterations
  (iterations at or above the maximum), max_duration (elapsed time at or above the
  maximum), no_progress (no-progress count at or above the threshold), and reports
  nothing when no condition matches. A condition of higher priority shadows the lower
  ones whatever they say.
\<close>

theorem shouldStop_priority:
  "(iterations st \<ge> maxIterations c \<longrightarrow>
      map_option reason (shouldStop now st c) = Some max_iterations)
   \<and> (iterations st < maxIterations c \<and> now - startedAt st \<ge> maxDurationMs c \<longrightarrow>
      map_option reason (shouldStop now st c) = Some max_duration)
   \<and> (iterations st < maxIterations c \<and> now - startedAt st < maxDurationMs c
        \<and> noProgressCount st \<ge> noProgressThreshold c \<longrightarrow>
      map_option reason (shouldStop now st c) = Some no_progress)
   \<and> (iterations st < maxIterations c \<and> now - startedAt st < maxDurationMs c
        \<and> noProgressCount st < noProgressThreshold c \<longrightarrow>
      shouldStop now st c = None)"
  by (simp add: shouldStop_def Let_def)

theorem shouldStop_priority_witness:
  "map_option reason
     (shouldStop 120000 \<lparr>iterations = 10, startedAt = 0, noProgressCount = 3\<rparr>
        \<lparr>maxIterations = 10, maxDurationMs = 60000, noProgressThreshold = 3\<rparr>)
     = Some max_iterations
   \<and> map_option reason
     (shouldStop 120000 \<lparr>iterations = 5, startedAt = 0, noProgressCount = 3\<rparr>
        \<lparr>maxIterations = 10, maxDurationMs = 60000, noProgressThreshold = 3\<rparr>)
     = Some max_duration
   \<and> map_option reason
     (shouldStop 1000 \<lparr>iterations = 5, startedAt = 0, noProgressCount = 3\<rparr>
        \<lparr>maxIterations = 10, maxDurationMs = 60000, noProgressThreshold = 3\<rparr>)
     = Some no_progress
   \<and> shouldStop 1000 \<lparr>iterations = 5, startedAt = 0, noProgressCount = 2\<rparr>
        \<lparr>maxIterations = 10, maxDurationMs = 60000, noProgressThreshold = 3\<rparr>
     = None"
  using
    shouldStop_priority [where st = "\<lparr>iterations = 10, startedAt = 0, noProgressCount = 3\<rparr>"
      and c = "\<lparr>maxIterations = 10, maxDurationMs = 60000, noProgressThreshold = 3\<rparr>"
      and now = 120000]
    shouldStop_priority [where st = "\<lparr>iterations = 5, startedAt = 0, noProgressCount = 3\<rparr>"
      and c = "\<lparr>maxIterations = 10, maxDurationMs = 60000, noProgressThreshold = 3\<rparr>"
      and now = 120000]
    shouldStop_priority [where st = "\<lparr>iterations = 5, startedAt = 0, noProgressCount = 3\<rparr>"
      and c = "\<lparr>maxIterations = 10, maxDurationMs = 60000, noProgressThreshold = 3\<rparr>"
      and now = 1000]
    shouldStop_priority [where st = "\<lparr>iterations = 5, startedAt = 0, noProgressCount = 2\<rparr>"
      and c = "\<lparr>maxIterations = 10, maxDurationMs = 60000, noProgressThreshold = 3\<rparr>"
      and now = 1000]
  by simp

section \<open>Properties of the heuristic progress detector\<close>

text \<open>
  Claim C5, as amended. Identical outputs are never progress. For outputs that differ,
  a strictly larger count of error patterns in the current output is never progress, and
  a strictly smaller count is progress unless the current output is blank while the
  previous one is not: that regression guard is checked before the counts are compared,
  and a blank current output is then no progress.
\<close>

theorem detectProgress_error_counts:
  "(prev = cur \<longrightarrow> \<not> detectProgress prev cur)
   \<and> (prev \<noteq> cur \<and> \<not> (\<not> truthy (trim cur) \<and> truthy (trim prev))
        \<and> countErrors cur < countErrors prev \<longrightarrow> detectProgress prev cur)
   \<and> (prev \<noteq> cur \<and> countErrors cur > countErrors prev \<longrightarrow> \<not> detectProgress prev cur)
   \<and> (\<not> truthy (trim cur) \<and> truthy (trim prev) \<longrightarrow> \<not> detectProgress prev cur)"
  by (simp add: detectProgress_def Let_def)

theorem detectProgress_error_counts_witness:
  "\<not> detectProgress (js ''Test output'') (js ''Test output'')
   \<and> detectProgress (js ''error: first error\<newline>error: second error'') (js ''error: first error'')
   \<and> \<not> detectProgress (js ''error: first error'') (js ''error: first error\<newline>error: second error'')
   \<and> \<not> detectProgress (js ''Some output'') (js '''')"
proof -
  have differ: "js ''error: first error\<newline>error: second error'' \<noteq> js ''error: first error''"
    by code_simp
  have fewer: "countErrors (js ''error: first error'')
      < countErrors (js ''error: first error\<newline>error: second error'')"
    by code_simp
  have nonblank: "truthy (trim (js ''error: first error''))"
    by code_simp
  have blank: "\<not> truthy (trim (js '''')) \<and> truthy (trim (js ''Some output''))"
    by code_simp
  from differ have differ': "js ''error: first error'' \<noteq> js ''error: first error\<newline>error: second error''"
    by (rule not_sym)
  show ?thesis
    using detectProgress_error_counts [of "js ''Test output''" "js ''Test output''"]
      detectProgress_error_counts [of "js ''error: first error\<newline>error: second error''"
        "js ''error: first error''"]
      detectProgress_error_counts [of "js ''error: first error''"
        "js ''error: first error\<newline>error: second error''"]
      detectProgress_error_counts [of "js ''Some output''" "js ''''"]
      differ differ' fewer nonblank blank
    by blast
qed

text \<open>
  The claim C5 as written fails: the outputs \<open>error\<close> and the empty string differ, the
  current (empty) output has strictly fewer error patterns, and the detector reports no
  progress.
\<close>

theorem detectProgress_fewer_errors_counterexample:
  "js ''error'' \<noteq> js '''' \<and> countErrors (js '''') < countErrors (js ''error'')
   \<and> \<not> detectProgress (js ''error'') (js '''')"
  by code_simp

text \<open>
  Claim C6 at a failing input. The two outputs tie on error patterns (one each). The
  pattern \<open>\bpassed?\b\<close> occurs once in the previous output and twice in the current
  one, yet the detector compares match lengths of patterns without the \<open>g\<close> flag, which
  are 1 and 1; no success pattern fires, the regression pattern \<open>\berror\b\<close> does, and
  the detector reports no progress.
\<close>

theorem detectProgress_success_increase_missed:
  "countErrors (js ''passed failure'') = countErrors (js ''passed passed error'')
   \<and> length (matchAll True (wordRx (Seq (lit ''passe'') (Opt (lit ''d'')))) (js ''passed failure'') 0) = 1
   \<and> length (matchAll True (wordRx (Seq (lit ''passe'') (Opt (lit ''d''))))
        (js ''passed passed error'') 0) = 2
   \<and> matchLength (wordRx (Seq (lit ''passe'') (Opt (lit ''d''))), True) (js ''passed failure'') = 1
   \<and> matchLength (wordRx (Seq (lit ''passe'') (Opt (lit ''d''))), True)
        (js ''passed passed error'') = 1
   \<and> \<not> detectProgress (js ''passed failure'') (js ''passed passed error'')"
  by code_simp

section \<open>Properties of the stop-condition manager\<close>

lemma applyCalls_snoc:
  "applyCalls d m (calls @ [c]) = applyCall d (applyCalls d m calls) c"
  by (simp add: applyCalls_def)

text \<open>The iteration counter of a manager counts the \<open>recordIteration\<close> calls made on it.\<close>

lemma applyCalls_iterations:
  "iterations (state (applyCalls d (createStopConditionManager now c) calls))
     = int (length (filter isRecord calls))"
proof (induction calls rule: rev_induct)
  case Nil
  show ?case by (simp add: applyCalls_def createStopConditionManager_def)
next
  case (snoc x xs)
  show ?case
  proof (cases x)
    case (RecordIteration out)
    then show ?thesis using snoc
      by (simp add: applyCalls_snoc recordIteration_def Let_def)
  next
    case ResetNoProgressCount
    then show ?thesis using snoc
      by (simp add: applyCalls_snoc resetNoProgressCount_def)
  qed
qed

lemma applyCalls_no_record:
  "\<not> list_ex isRecord calls \<Longrightarrow>
     noProgressCount (state (applyCalls d (createStopConditionManager now c) calls)) = 0
     \<and> detectorCalls (applyCalls d (createStopConditionManager now c) calls) = []"
proof (induction calls rule: rev_induct)
  case Nil
  show ?case by (simp add: applyCalls_def createStopConditionManager_def)
next
  case (snoc x xs)
  then show ?case
    by (cases x) (simp_all add: applyCalls_snoc resetNoProgressCount_def)
qed

lemma filter_isRecord_empty: "(filter isRecord calls = []) = (\<not> list_ex isRecord calls)"
  by (simp add: filter_empty_conv list_ex_iff)

text \<open>
  Claim C9. Take a manager as created, after any sequence of calls. If none of them was
  \<open>recordIteration\<close>, the next \<open>recordIteration\<close> is the first: whatever the output
  and the detector, it returns 0, leaves the counter at 0 and has not consulted the
  detector. If \<open>recordIteration\<close> has been called before, the call consults the
  detector once, on the last output and the new one, and the counter becomes 0 when the
  detector reports progress and one more than it was when it does not.
\<close>

theorem recordIteration_counter:
  "(\<not> list_ex isRecord calls \<longrightarrow>
      (let m = applyCalls d (createStopConditionManager now c) calls;
           (m', n) = recordIteration d m out
       in n = 0 \<and> noProgressCount (state m') = 0 \<and> detectorCalls m' = []))
   \<and> (list_ex isRecord calls \<longrightarrow>
      (let m = applyCalls d (createStopConditionManager now c) calls;
           (m', n) = recordIteration d m out
       in detectorCalls m' = detectorCalls m @ [(lastOutput m, out)]
          \<and> n = noProgressCount (state m')
          \<and> (d (lastOutput m) out \<longrightarrow> n = 0)
          \<and> (\<not> d (lastOutput m) out \<longrightarrow> n = noProgressCount (state m) + 1)))"
proof (intro conjI impI)
  assume a: "\<not> list_ex isRecord calls"
  then have "filter isRecord calls = []" by (simp add: filter_isRecord_empty)
  then have it: "iterations (state (applyCalls d (createStopConditionManager now c) calls)) = 0"
    by (simp add: applyCalls_iterations)
  from a applyCalls_no_record [of calls d now c] it
  show "let m = applyCalls d (createStopConditionManager now c) calls;
           (m', n) = recordIteration d m out
       in n = 0 \<and> noProgressCount (state m') = 0 \<and> detectorCalls m' = []"
    by (simp add: recordIteration_def Let_def)
next
  assume a: "list_ex isRecord calls"
  then have "filter isRecord calls \<noteq> []" by (simp add: filter_isRecord_empty)
  then have "length (filter isRecord calls) \<noteq> 0" by simp
  then have it: "iterations (state (applyCalls d (createStopConditionManager now c) calls)) \<noteq> 0"
    by (simp add: applyCalls_iterations)
  then show "let m = applyCalls d (createStopConditionManager now c) calls;
           (m', n) = recordIteration d m out
       in detectorCalls m' = detectorCalls m @ [(lastOutput m, out)]
          \<and> n = noProgressCount (state m')
          \<and> (d (lastOutput m) out \<longrightarrow> n = 0)
          \<and> (\<not> d (lastOutput m) out \<longrightarrow> n = noProgressCount (state m) + 1)"
    by (simp add: recordIteration_def Let_def)
qed

theorem recordIteration_counter_witness:
  "snd (recordIteration detectProgress
          (createStopConditionManager 0 DEFAULT_STOP_CONDITIONS) (js ''error: x'')) = 0
   \<and> detectorCalls (fst (recordIteration detectProgress
          (createStopConditionManager 0 DEFAULT_STOP_CONDITIONS) (js ''error: x''))) = []
   \<and> snd (recordIteration detectProgress
          (applyCalls detectProgress (createStopConditionManager 0 DEFAULT_STOP_CONDITIONS)
             [RecordIteration (js ''error: x'')])
          (js ''error: x'')) = 1
   \<and> snd (recordIteration (\<lambda>prev cur. True)
          (applyCalls (\<lambda>prev cur. True) (createStopConditionManager 0 DEFAULT_STOP_CONDITIONS)
             [RecordIteration (js ''error: x''), RecordIteration (js ''error: x'')])
          (js ''error: x'')) = 0"
proof -
  let ?fresh = "createStopConditionManager 0 DEFAULT_STOP_CONDITIONS"
  let ?m1 = "applyCalls detectProgress ?fresh [RecordIteration (js ''error: x'')]"
  have none: "\<not> list_ex isRecord []" by simp
  have some1: "list_ex isRecord [RecordIteration (js ''error: x'')]" by simp
  have some2: "list_ex isRecord [RecordIteration (js ''error: x''), RecordIteration (js ''error: x'')]"
    by simp
  have empty: "applyCalls detectProgress ?fresh [] = ?fresh"
    by (simp add: applyCalls_def)
  have last1: "lastOutput ?m1 = js ''error: x''"
    by (simp add: applyCalls_def recordIteration_def Let_def)
  have count1: "noProgressCount (state ?m1) = 0"
    by (simp add: applyCalls_def recordIteration_def Let_def createStopConditionManager_def)
  have same: "\<not> detectProgress (js ''error: x'') (js ''error: x'')"
    by (simp add: detectProgress_def)
  show ?thesis
    using recordIteration_counter [of "[]" detectProgress 0 DEFAULT_STOP_CONDITIONS "js ''error: x''"]
      recordIteration_counter [of "[RecordIteration (js ''error: x'')]" detectProgress 0
        DEFAULT_STOP_CONDITIONS "js ''error: x''"]
      recordIteration_counter [of "[RecordIteration (js ''error: x''), RecordIteration (js ''error: x'')]"
        "\<lambda>prev cur. True" 0 DEFAULT_STOP_CONDITIONS "js ''error: x''"]
      none some1 some2 empty last1 count1 same
    by (simp add: Let_def split_beta)
qed

section \<open>Properties of the criteria evaluator\<close>











lemma evaluatedCriteria_append:
  "evaluatedCriteria (xs @ ys) = evaluatedCriteria xs @ evaluatedCriteria ys"
  by (induction xs rule: evaluatedCriteria.induct) simp_all

lemma runEvents_log:
  "runEvents es st = Some (r, l) \<Longrightarrow> \<exists>k. l = log st @ replicate k KillSIGTERM"
proof (induction es arbitrary: st)
  case Nil
  then show ?case by simp
next
  case (Cons e es)
  show ?case
  proof (cases e)
    case (StdoutData d)
    with Cons.prems have "runEvents es (st\<lparr>outBuf := outBuf st @ d\<rparr>) = Some (r, l)" by simp
    from Cons.IH [OF this] show ?thesis by simp
  next
    case (StderrData d)
    with Cons.prems have "runEvents es (st\<lparr>errBuf := errBuf st @ d\<rparr>) = Some (r, l)" by simp
    from Cons.IH [OF this] show ?thesis by simp
  next
    case TimerFired
    with Cons.prems have "runEvents es (st\<lparr>killed := True, log := log st @ [KillSIGTERM]\<rparr>) = Some (r, l)"
      by simp
    from Cons.IH [OF this] obtain k where "l = (log st @ [KillSIGTERM]) @ replicate k KillSIGTERM"
      by auto
    then have "l = log st @ replicate (Suc k) KillSIGTERM" by simp
    then show ?thesis by blast
  next
    case (Close code)
    with Cons.prems have "l = log st @ replicate 0 KillSIGTERM" by auto
    then show ?thesis by blast
  next
    case (ProcError msg)
    with Cons.prems have "l = log st @ replicate 0 KillSIGTERM" by auto
    then show ?thesis by blast
  qed
qed

lemma evaluatedCriteria_kills [simp]: "evaluatedCriteria (replicate k KillSIGTERM) = []"
  by (induction k) simp_all

lemma filter_isSpawn_kills [simp]: "filter isSpawn (replicate k KillSIGTERM) = []"
  by (induction k) simp_all

lemma executeCommand_log:
  assumes "executeCommand proc w cmd cargs options = Some (res, w1)"
  shows "\<exists>sp k. w1 = w @ sp # replicate k KillSIGTERM \<and> isSpawn sp"
proof -
  from assms obtain k where
    "w1 = (w @ [Spawn (fullCommand cmd cargs) (cwd options)
                  (case optTimeout options of None \<Rightarrow> DEFAULT_TIMEOUT | Some t \<Rightarrow> t)])
          @ replicate k KillSIGTERM"
    unfolding executeCommand_def Let_def
    using runEvents_log by fastforce
  then show ?thesis by simp
qed


lemma evaluate_early:
  "\<not> truthy (configCommand (getCommandConfig c)) \<Longrightarrow>
     \<exists>r. evaluate proc w c options = Some (r, w @ [Evaluate c])"
  by (simp add: evaluate_def Let_def)

lemma evaluate_run:
  assumes "truthy (configCommand (getCommandConfig c))"
    and "evaluate proc w c options = Some (r, w1)"
  shows "\<exists>res. executeCommand proc (w @ [Evaluate c]) (configCommand (getCommandConfig c))
           (args (getCommandConfig c)) (options\<lparr>optTimeout := Some (resolveTimeout c options)\<rparr>)
         = Some (res, w1)"
proof (cases "executeCommand proc (w @ [Evaluate c]) (configCommand (getCommandConfig c))
           (args (getCommandConfig c)) (options\<lparr>optTimeout := Some (resolveTimeout c options)\<rparr>)")
  case None
  with assms show ?thesis by (simp add: evaluate_def Let_def)
next
  case (Some p)
  obtain res w2 where p: "p = (res, w2)" by (cases p)
  from assms Some p have "w1 = w2"
    by (simp add: evaluate_def Let_def split: if_splits)
  with Some p show ?thesis by simp
qed


lemma evaluate_log:
  assumes "evaluate proc w c options = Some (r, w1)"
  shows "\<exists>ext. w1 = w @ Evaluate c # ext \<and> evaluatedCriteria ext = []
           \<and> length (filter isSpawn ext) \<le> 1"
proof (cases "truthy (configCommand (getCommandConfig c))")
  case False
  from evaluate_early [OF False, of proc w options] assms
  have "w1 = w @ Evaluate c # []" by auto
  then show ?thesis by auto
next
  case True
  from evaluate_run [OF True assms] obtain res where
    "executeCommand proc (w @ [Evaluate c]) (configCommand (getCommandConfig c))
           (args (getCommandConfig c)) (options\<lparr>optTimeout := Some (resolveTimeout c options)\<rparr>)
         = Some (res, w1)" by blast
  from executeCommand_log [OF this] obtain sp k where
    w1: "w1 = (w @ [Evaluate c]) @ sp # replicate k KillSIGTERM" and sp: "isSpawn sp"
    by blast
  from w1 have "w1 = w @ Evaluate c # (sp # replicate k KillSIGTERM)" by simp
  moreover from sp have "evaluatedCriteria (sp # replicate k KillSIGTERM) = []"
    by (cases sp) simp_all
  moreover have "length (filter isSpawn (sp # replicate k KillSIGTERM)) \<le> 1"
    by simp
  ultimately show ?thesis by blast
qed

lemma evaluateEach_log:
  "evaluateEach proc options cs w = Some (rs, w') \<Longrightarrow>
     length rs = length cs
     \<and> (\<exists>ext. w' = w @ ext \<and> evaluatedCriteria ext = cs \<and> length (filter isSpawn ext) \<le> length cs)"
proof (induction cs arbitrary: w rs)
  case Nil
  then show ?case by simp
next
  case (Cons c cs)
  from Cons.prems obtain r w1 rs' where
    e1: "evaluate proc w c options = Some (r, w1)" and
    e2: "evaluateEach proc options cs w1 = Some (rs', w')" and rs: "rs = r # rs'"
    by (auto split: option.splits)
  from evaluate_log [OF e1] obtain ext1 where
    x1: "w1 = w @ Evaluate c # ext1" "evaluatedCriteria ext1 = []" "length (filter isSpawn ext1) \<le> 1"
    by blast
  from Cons.IH [OF e2] obtain ext2 where
    x2: "length rs' = length cs" "w' = w1 @ ext2" "evaluatedCriteria ext2 = cs"
      "length (filter isSpawn ext2) \<le> length cs"
    by blast
  have "w' = w @ (Evaluate c # ext1 @ ext2)" using x1 x2 by simp
  moreover have "evaluatedCriteria (Evaluate c # ext1 @ ext2) = c # cs"
    using x1 x2 by (simp add: evaluatedCriteria_append)
  moreover have "length (filter isSpawn (Evaluate c # ext1 @ ext2)) \<le> length (c # cs)"
    using x1 x2 by simp
  moreover have "length rs = length (c # cs)" using rs x2 by simp
  ultimately show ?case by blast
qed


lemma evaluateAllLoop_sound:
  "evaluateAllLoop proc options len cs allOutput allSugg w = Some (res, w') \<Longrightarrow>
   \<exists>n results. n \<le> length cs \<and> length results = n
     \<and> evaluateEach proc options (take n cs) w = Some (results, w')
     \<and> (\<forall>r\<in>set (butlast results). success r)
     \<and> (n < length cs \<longrightarrow> results \<noteq> [] \<and> \<not> success (last results))
     \<and> (success res \<longleftrightarrow> list_all success results)
     \<and> (\<not> success res \<longrightarrow> results \<noteq> [] \<and> evalReason res = evalReason (last results)
           \<and> exitCode res = exitCode (last results))
     \<and> evalOutput res
         = joinStrings (js ''\<newline>\<newline>'') (allOutput @ map2 outputBlock (take n cs) results)"
proof (induction cs arbitrary: allOutput allSugg w)
  case Nil
  then show ?case by auto
next
  case (Cons c cs)
  from Cons.prems obtain r w1 where e1: "evaluate proc w c options = Some (r, w1)"
    by (auto split: option.splits)
  show ?case
  proof (cases "success r")
    case False
    with Cons.prems e1 have
      res: "res = \<lparr>success = False,
               evalOutput = joinStrings (js ''\<newline>\<newline>'') (allOutput @ [outputBlock c r]),
               evalReason = evalReason r, exitCode = exitCode r,
               suggestions = (if allSugg @ (case suggestions r of None \<Rightarrow> [] | Some l \<Rightarrow> l) \<noteq> []
                              then Some (allSugg @ (case suggestions r of None \<Rightarrow> [] | Some l \<Rightarrow> l))
                              else None)\<rparr>"
      and w': "w' = w1"
      by (auto simp: Let_def)
    have "Suc 0 \<le> length (c # cs) \<and> length [r] = Suc 0
      \<and> evaluateEach proc options (take (Suc 0) (c # cs)) w = Some ([r], w')
      \<and> (\<forall>r\<in>set (butlast [r]). success r)
      \<and> (Suc 0 < length (c # cs) \<longrightarrow> [r] \<noteq> [] \<and> \<not> success (last [r]))
      \<and> (success res \<longleftrightarrow> list_all success [r])
      \<and> (\<not> success res \<longrightarrow> [r] \<noteq> [] \<and> evalReason res = evalReason (last [r])
           \<and> exitCode res = exitCode (last [r]))
      \<and> evalOutput res
         = joinStrings (js ''\<newline>\<newline>'') (allOutput @ map2 outputBlock (take (Suc 0) (c # cs)) [r])"
      using False e1 res w' by simp
    then show ?thesis by blast
  next
    case True
    with Cons.prems e1 have
      "evaluateAllLoop proc options len cs (allOutput @ [outputBlock c r])
         (allSugg @ (case suggestions r of None \<Rightarrow> [] | Some l \<Rightarrow> l)) w1 = Some (res, w')"
      by (simp add: Let_def)
    from Cons.IH [OF this] obtain n results where
      ih: "n \<le> length cs" "length results = n"
        "evaluateEach proc options (take n cs) w1 = Some (results, w')"
        "\<forall>r\<in>set (butlast results). success r"
        "n < length cs \<longrightarrow> results \<noteq> [] \<and> \<not> success (last results)"
        "success res \<longleftrightarrow> list_all success results"
        "\<not> success res \<longrightarrow> results \<noteq> [] \<and> evalReason res = evalReason (last results)
           \<and> exitCode res = exitCode (last results)"
        "evalOutput res = joinStrings (js ''\<newline>\<newline>'')
           ((allOutput @ [outputBlock c r]) @ map2 outputBlock (take n cs) results)"
      by blast
    have "Suc n \<le> length (c # cs) \<and> length (r # results) = Suc n
      \<and> evaluateEach proc options (take (Suc n) (c # cs)) w = Some (r # results, w')
      \<and> (\<forall>r\<in>set (butlast (r # results)). success r)
      \<and> (Suc n < length (c # cs) \<longrightarrow> r # results \<noteq> [] \<and> \<not> success (last (r # results)))
      \<and> (success res \<longleftrightarrow> list_all success (r # results))
      \<and> (\<not> success res \<longrightarrow> r # results \<noteq> [] \<and> evalReason res = evalReason (last (r # results))
           \<and> exitCode res = exitCode (last (r # results)))
      \<and> evalOutput res
         = joinStrings (js ''\<newline>\<newline>'')
             (allOutput @ map2 outputBlock (take (Suc n) (c # cs)) (r # results))"
      using True e1 ih by auto
    then show ?thesis by blast
  qed
qed

lemma runEvents_ends:
  "list_ex isEnd es \<Longrightarrow> runEvents es st \<noteq> None"
proof (induction es arbitrary: st)
  case Nil
  then show ?case by simp
next
  case (Cons e es)
  then show ?case by (cases e) simp_all
qed

lemma evaluate_returns:
  assumes "\<forall>n cmd d t. list_ex isEnd (proc n cmd d t)"
  shows "evaluate proc w c options \<noteq> None"
proof (cases "truthy (configCommand (getCommandConfig c))")
  case False
  from evaluate_early [OF False, of proc w options] show ?thesis by auto
next
  case True
  have "executeCommand proc (w @ [Evaluate c]) (configCommand (getCommandConfig c))
           (args (getCommandConfig c)) (options\<lparr>optTimeout := Some (resolveTimeout c options)\<rparr>)
         \<noteq> None"
    using assms by (simp add: executeCommand_def Let_def runEvents_ends)
  then obtain res w1 where
    "executeCommand proc (w @ [Evaluate c]) (configCommand (getCommandConfig c))
           (args (getCommandConfig c)) (options\<lparr>optTimeout := Some (resolveTimeout c options)\<rparr>)
         = Some (res, w1)" by auto
  with True show ?thesis by (simp add: evaluate_def Let_def)
qed

lemma evaluateAllLoop_returns:
  assumes "\<forall>n cmd d t. list_ex isEnd (proc n cmd d t)"
  shows "evaluateAllLoop proc options len cs allOutput allSugg w \<noteq> None"
proof (induction cs arbitrary: allOutput allSugg w)
  case Nil
  show ?case by simp
next
  case (Cons c cs)
  from evaluate_returns [OF assms, of w c options] obtain r w1 where
    "evaluate proc w c options = Some (r, w1)" by auto
  with Cons show ?case by (simp add: Let_def)
qed

text \<open>
  Claim C4. \<open>evaluateAll\<close> on the empty list returns a successful result. When all
  spawned processes end, \<open>evaluateAll\<close> returns. Whenever it returns on a list of
  criteria, there is a number \<open>n\<close> such that exactly the first \<open>n\<close> criteria were
  evaluated, in order, each once, each spawning at most one process; all results but the
  last succeeded and, if \<open>n\<close> is less than the length of the list, the last one
  failed; the returned output is the \<open>n\<close> blocks of these \<open>n\<close> evaluations joined by
  blank lines; and the result is successful exactly when all \<open>n\<close> results are, a failure
  carrying the reason of the failing criterion.
\<close>

theorem evaluateAll_short_circuit:
  "evaluateAll proc w [] options
     = Some (\<lparr>success = True, evalOutput = [], evalReason = js ''No criteria to evaluate'',
              exitCode = None, suggestions = None\<rparr>, w)
   \<and> ((\<forall>n cmd d t. list_ex isEnd (proc n cmd d t)) \<longrightarrow>
         evaluateAll proc w criteria options \<noteq> None)
   \<and> (evaluateAll proc w criteria options = Some (res, w') \<longrightarrow>
        (\<exists>n results ext.
            n \<le> length criteria \<and> length results = n
          \<and> evaluateEach proc options (take n criteria) w = Some (results, w')
          \<and> w' = w @ ext \<and> evaluatedCriteria ext = take n criteria
          \<and> length (filter isSpawn ext) \<le> n
          \<and> (\<forall>r\<in>set (butlast results). success r)
          \<and> (n < length criteria \<longrightarrow> results \<noteq> [] \<and> \<not> success (last results))
          \<and> (success res \<longleftrightarrow> list_all success results)
          \<and> (\<not> success res \<longrightarrow> results \<noteq> [] \<and> evalReason res = evalReason (last results))
          \<and> evalOutput res
              = joinStrings (js ''\<newline>\<newline>'') (map2 outputBlock (take n criteria) results)))"
proof (intro conjI impI)
  show "evaluateAll proc w [] options
     = Some (\<lparr>success = True, evalOutput = [], evalReason = js ''No criteria to evaluate'',
              exitCode = None, suggestions = None\<rparr>, w)"
    by (simp add: evaluateAll_def)
next
  assume a: "\<forall>n cmd d t. list_ex isEnd (proc n cmd d t)"
  from evaluateAllLoop_returns [OF a]
  show "evaluateAll proc w criteria options \<noteq> None"
    by (simp add: evaluateAll_def)
next
  assume ret: "evaluateAll proc w criteria options = Some (res, w')"
  show "\<exists>n results ext.
            n \<le> length criteria \<and> length results = n
          \<and> evaluateEach proc options (take n criteria) w = Some (results, w')
          \<and> w' = w @ ext \<and> evaluatedCriteria ext = take n criteria
          \<and> length (filter isSpawn ext) \<le> n
          \<and> (\<forall>r\<in>set (butlast results). success r)
          \<and> (n < length criteria \<longrightarrow> results \<noteq> [] \<and> \<not> success (last results))
          \<and> (success res \<longleftrightarrow> list_all success results)
          \<and> (\<not> success res \<longrightarrow> results \<noteq> [] \<and> evalReason res = evalReason (last results))
          \<and> evalOutput res
              = joinStrings (js ''\<newline>\<newline>'') (map2 outputBlock (take n criteria) results)"
  proof (cases "criteria = []")
    case True
    with ret have "res = \<lparr>success = True, evalOutput = [], evalReason = js ''No criteria to evaluate'',
              exitCode = None, suggestions = None\<rparr>" and "w' = w"
      by (simp_all add: evaluateAll_def)
    with True have "0 \<le> length criteria \<and> length ([] :: EvaluationResult list) = 0
          \<and> evaluateEach proc options (take 0 criteria) w = Some ([], w')
          \<and> w' = w @ [] \<and> evaluatedCriteria [] = take 0 criteria
          \<and> length (filter isSpawn []) \<le> (0::nat)
          \<and> (\<forall>r\<in>set (butlast ([] :: EvaluationResult list)). success r)
          \<and> (0 < length criteria \<longrightarrow> ([] :: EvaluationResult list) \<noteq> [] \<and> \<not> success (last []))
          \<and> (success res \<longleftrightarrow> list_all success [])
          \<and> (\<not> success res \<longrightarrow> ([] :: EvaluationResult list) \<noteq> [] \<and> evalReason res = evalReason (last []))
          \<and> evalOutput res
              = joinStrings (js ''\<newline>\<newline>'') (map2 outputBlock (take 0 criteria) [])"
      by simp
    then show ?thesis by blast
  next
    case False
    with ret have "evaluateAllLoop proc options (length criteria) criteria [] [] w = Some (res, w')"
      by (simp add: evaluateAll_def)
    from evaluateAllLoop_sound [OF this] obtain n results where
      s: "n \<le> length criteria" "length results = n"
        "evaluateEach proc options (take n criteria) w = Some (results, w')"
        "\<forall>r\<in>set (butlast results). success r"
        "n < length criteria \<longrightarrow> results \<noteq> [] \<and> \<not> success (last results)"
        "success res \<longleftrightarrow> list_all success results"
        "\<not> success res \<longrightarrow> results \<noteq> [] \<and> evalReason res = evalReason (last results)
           \<and> exitCode res = exitCode (last results)"
        "evalOutput res
          = joinStrings (js ''\<newline>\<newline>'') ([] @ map2 outputBlock (take n criteria) results)"
      by blast
    from evaluateEach_log [OF s(3)] s(1) obtain ext where
      l: "w' = w @ ext" "evaluatedCriteria ext = take n criteria"
         "length (filter isSpawn ext) \<le> n"
      by auto
    from s l show ?thesis by auto
  qed
qed

theorem evaluateAll_short_circuit_witness:
  "evaluateAll
     (\<lambda>n cmd d t. if n = 1 then [StdoutData (js ''x''), Close (Some 2)] else [Close (Some 0)]) []
     [\<lparr>ctype = type_check, command = None, timeout = None, expectedExitCode = None\<rparr>,
      \<lparr>ctype = test_pass, command = None, timeout = None, expectedExitCode = None\<rparr>,
      \<lparr>ctype = lint_clean, command = None, timeout = None, expectedExitCode = None\<rparr>]
     \<lparr>optTimeout = None, cwd = None\<rparr>
   = Some (\<lparr>success = False, evalOutput = js ''[type_check]\<newline>\<newline>\<newline>[test_pass]\<newline>x'',
            evalReason = js ''test_pass failed with exit code 2'', exitCode = Some 2,
            suggestions = None\<rparr>,
           [Evaluate \<lparr>ctype = type_check, command = None, timeout = None, expectedExitCode = None\<rparr>,
            Spawn (js ''npx tsc --noEmit'') None 120000,
            Evaluate \<lparr>ctype = test_pass, command = None, timeout = None, expectedExitCode = None\<rparr>,
            Spawn (js ''npm test'') None 120000])
   \<and> (\<exists>n results.
         length results = n
         \<and> evaluatedCriteria
             [Evaluate \<lparr>ctype = type_check, command = None, timeout = None, expectedExitCode = None\<rparr>,
              Spawn (js ''npx tsc --noEmit'') None 120000,
              Evaluate \<lparr>ctype = test_pass, command = None, timeout = None, expectedExitCode = None\<rparr>,
              Spawn (js ''npm test'') None 120000]
             = take n
                 [\<lparr>ctype = type_check, command = None, timeout = None, expectedExitCode = None\<rparr>,
                  \<lparr>ctype = test_pass, command = None, timeout = None, expectedExitCode = None\<rparr>,
                  \<lparr>ctype = lint_clean, command = None, timeout = None, expectedExitCode = None\<rparr>]
         \<and> js ''[type_check]\<newline>\<newline>\<newline>[test_pass]\<newline>x''
             = joinStrings (js ''\<newline>\<newline>'')
                 (map2 outputBlock
                    (take n
                      [\<lparr>ctype = type_check, command = None, timeout = None, expectedExitCode = None\<rparr>,
                       \<lparr>ctype = test_pass, command = None, timeout = None, expectedExitCode = None\<rparr>,
                       \<lparr>ctype = lint_clean, command = None, timeout = None, expectedExitCode = None\<rparr>])
                    results))"
proof -
  let ?proc = "\<lambda>(n::nat) (cmd::jsstring) (d::jsstring option) (t::int).
                 if n = 1 then [StdoutData (js ''x''), Close (Some 2)] else [Close (Some 0)]"
  let ?c1 = "\<lparr>ctype = type_check, command = None, timeout = None, expectedExitCode = None\<rparr>"
  let ?c2 = "\<lparr>ctype = test_pass, command = None, timeout = None, expectedExitCode = None\<rparr>"
  let ?c3 = "\<lparr>ctype = lint_clean, command = None, timeout = None, expectedExitCode = None\<rparr>"
  let ?res = "\<lparr>success = False, evalOutput = js ''[type_check]\<newline>\<newline>\<newline>[test_pass]\<newline>x'',
            evalReason = js ''test_pass failed with exit code 2'', exitCode = Some 2,
            suggestions = None\<rparr>"
  let ?w = "[Evaluate ?c1, Spawn (js ''npx tsc --noEmit'') None 120000,
            Evaluate ?c2, Spawn (js ''npm test'') None 120000]"
  have run: "evaluateAll ?proc [] [?c1, ?c2, ?c3] \<lparr>optTimeout = None, cwd = None\<rparr> = Some (?res, ?w)"
    by code_simp
  from evaluateAll_short_circuit [of ?proc "[]" "\<lparr>optTimeout = None, cwd = None\<rparr>"
      "[?c1, ?c2, ?c3]" ?res ?w] run
  obtain n results ext where
    f: "length results = n" "?w = [] @ ext" "evaluatedCriteria ext = take n [?c1, ?c2, ?c3]"
       "evalOutput ?res
          = joinStrings (js ''\<newline>\<newline>'') (map2 outputBlock (take n [?c1, ?c2, ?c3]) results)"
    by blast
  from f(2) have "ext = ?w" by simp
  with f have "length results = n \<and> evaluatedCriteria ?w = take n [?c1, ?c2, ?c3]
     \<and> js ''[type_check]\<newline>\<newline>\<newline>[test_pass]\<newline>x''
          = joinStrings (js ''\<newline>\<newline>'') (map2 outputBlock (take n [?c1, ?c2, ?c3]) results)"
    by simp
  then have "\<exists>n results. length results = n \<and> evaluatedCriteria ?w = take n [?c1, ?c2, ?c3]
     \<and> js ''[type_check]\<newline>\<newline>\<newline>[test_pass]\<newline>x''
          = joinStrings (js ''\<newline>\<newline>'') (map2 outputBlock (take n [?c1, ?c2, ?c3]) results)"
    by blast
  with run show ?thesis by (rule conjI)
qed

section \<open>Properties of the loop engine\<close>

lemma endLoopRun_fields [simp]:
  "stopRequested (endLoopRun st e) = stopRequested e"
  "iterationCallback (endLoopRun st e) = iterationCallback e"
  "completeCallback (endLoopRun st e) = completeCallback e"
  by (simp_all add: endLoopRun_def Let_def split: option.splits)

lemma stop_fields [simp]:
  "stopRequested (stop e) = True"
  "iterationCallback (stop e) = iterationCallback e"
  "completeCallback (stop e) = completeCallback e"
  by (simp_all add: stop_def Let_def split: option.splits)

lemma createLoopSummary_fields [simp]:
  "completeCallback (createLoopSummary rid tsk result e) = completeCallback e"
  "currentLoopRun (createLoopSummary rid tsk result e) = currentLoopRun e"
  "loop_runs (db (createLoopSummary rid tsk result e)) = loop_runs (db e)"
  by (simp_all add: createLoopSummary_def Let_def createObservation_def)

lemma callIterationStart_fields [simp]:
  "stopRequested (fst (callIterationStart e c)) = stopRequested e"
  "iterationCallback (fst (callIterationStart e c)) = iterationCallback e"
  "completeCallback (fst (callIterationStart e c)) = completeCallback e"
  "currentLoopRun (fst (callIterationStart e c)) = currentLoopRun e"
  "db (fst (callIterationStart e c)) = db e"
  "clock (fst (callIterationStart e c)) = clock e"
  by (simp_all add: callIterationStart_def split: option.splits)

lemma callIterationEnd_fields [simp]:
  "stopRequested (fst (callIterationEnd e c r)) = stopRequested e"
  "completeCallback (fst (callIterationEnd e c r)) = completeCallback e"
  by (simp_all add: callIterationEnd_def split: option.splits)

lemma callComplete_fields [simp]:
  "completeCallback (fst (callComplete e result)) = completeCallback e"
  "db (fst (callComplete e result)) = db e"
  by (simp_all add: callComplete_def split: option.splits)

text \<open>What the completion hook makes of a result: thrown or not.\<close>

lemma callComplete_thrown:
  "snd (callComplete e result)
     = (case completeCallback e of
          None \<Rightarrow> None
        | Some hook \<Rightarrow> (case hook result of HookReturns \<Rightarrow> None | HookThrows thrown \<Rightarrow> Some thrown))"
  by (simp add: callComplete_def split: option.splits)

text \<open>The outcome of the \<open>catch\<close> block.\<close>

lemma catchError_outcome:
  "snd (catchError rid tsk iteration msg e)
     = (case completeCallback e of
          None \<Rightarrow>
            Inr \<lparr>res_success = False, res_iterations = iteration, res_reason = reason_error,
                 loopRunId = rid, res_error = Some msg\<rparr>
        | Some hook \<Rightarrow>
            (case hook \<lparr>res_success = False, res_iterations = iteration,
                        res_reason = reason_error, loopRunId = rid, res_error = Some msg\<rparr> of
               HookReturns \<Rightarrow>
                 Inr \<lparr>res_success = False, res_iterations = iteration, res_reason = reason_error,
                      loopRunId = rid, res_error = Some msg\<rparr>
             | HookThrows thrown \<Rightarrow> Inl thrown))"
  by (simp add: catchError_def Let_def callComplete_thrown split: option.splits hookOutcome.splits)

lemma catchError_resolved:
  "snd (catchError rid tsk iteration msg e) = Inr r \<Longrightarrow>
     r = \<lparr>res_success = False, res_iterations = iteration, res_reason = reason_error,
          loopRunId = rid, res_error = Some msg\<rparr>"
  by (auto simp: catchError_outcome split: option.splits hookOutcome.splits)



text \<open>The outcome of the end of a path of the \<open>try\<close> block.\<close>

lemma finish_resolved:
  "snd (finish st rid tsk result e) = Inr r \<Longrightarrow>
     r = result
     \<or> (\<exists>msg. r = \<lparr>res_success = False, res_iterations = res_iterations result,
                     res_reason = reason_error, loopRunId = rid, res_error = Some msg\<rparr>)"
proof (cases "snd (callComplete (createLoopSummary rid tsk result (endLoopRun st e)) result)")
  case None
  assume "snd (finish st rid tsk result e) = Inr r"
  with None show ?thesis by (simp add: finish_def Let_def)
next
  case (Some thrown)
  assume "snd (finish st rid tsk result e) = Inr r"
  with Some have "snd (catchError rid tsk (res_iterations result) thrown
                    (fst (callComplete (createLoopSummary rid tsk result (endLoopRun st e)) result)))
                  = Inr r"
    by (simp add: finish_def Let_def)
  from catchError_resolved [OF this] show ?thesis by blast
qed


text \<open>
  One pass of the loop. Either the pass ends the run, in the \<open>catch\<close> block or with
  success, or the loop goes on with the next pass; the flag is then set exactly when the
  host has called \<open>stop\<close> during the pass.
\<close>

lemma mainLoop_pass:
  assumes "iteration < maxIter" and "\<not> stopRequested e"
  shows "(\<exists>msg e'. mainLoop h tsk maxIter cd rid iteration lastErr e
                      = catchError rid tsk (iteration + 1) msg e'
                    \<and> completeCallback e' = completeCallback e)
       \<or> (\<exists>e'. mainLoop h tsk maxIter cd rid iteration lastErr e
                   = finish status_success rid tsk
                       \<lparr>res_success = True, res_iterations = iteration + 1,
                        res_reason = reason_success, loopRunId = rid, res_error = None\<rparr> e'
                 \<and> completeCallback e' = completeCallback e)
       \<or> (\<exists>lastErr' e'. mainLoop h tsk maxIter cd rid iteration lastErr e
                   = mainLoop h tsk maxIter cd rid (iteration + 1) lastErr' e'
                 \<and> completeCallback e' = completeCallback e
                 \<and> (stopRequested e'
                      \<longrightarrow> stopInCallback h (iteration + 1) \<or> stopInCooldown h (iteration + 1)))"
proof -
  let ?ctx = "\<lparr>ctx_iteration = iteration + 1, ctx_task = tsk, ctx_loopRunId = rid\<rparr>"
  let ?e1 = "e\<lparr>currentIteration := iteration + 1\<rparr>"
  let ?e2 = "?e1\<lparr>db := updateLoopRun (db ?e1) rid (\<lambda>r. r\<lparr>lr_iterations := iteration + 1\<rparr>)\<rparr>"
  let ?e3 = "fst (callIterationStart ?e2 ?ctx)"
  have cc3: "completeCallback ?e3 = completeCallback e" by simp
  have sr3: "stopRequested ?e3 = stopRequested e" by simp
  show ?thesis
  proof (cases "snd (callIterationStart ?e2 ?ctx)")
    case (Some thrown)
    with assms have "mainLoop h tsk maxIter cd rid iteration lastErr e
                       = catchError rid tsk (iteration + 1) thrown ?e3"
      by (simp add: mainLoop.simps [of h tsk maxIter cd rid iteration] Let_def)
    with cc3 show ?thesis by blast
  next
    case nothrow: None
    show ?thesis
    proof (cases "iterationCallback ?e3")
      case None
      with nothrow assms have "mainLoop h tsk maxIter cd rid iteration lastErr e
          = catchError rid tsk (iteration + 1)
              (js ''No iteration callback set. Call onIteration() before start().'') ?e3"
        by (simp add: mainLoop.simps [of h tsk maxIter cd rid iteration] Let_def)
      with cc3 show ?thesis by blast
    next
      case (Some callback)
      let ?e4 = "if stopInCallback h (iteration + 1) then stop ?e3 else ?e3"
      have cc4: "completeCallback ?e4 = completeCallback e" by simp
      show ?thesis
      proof (cases "callback ?ctx")
        case (Throws msg)
        with Some nothrow assms have "mainLoop h tsk maxIter cd rid iteration lastErr e
            = catchError rid tsk (iteration + 1) msg ?e4"
          by (simp add: mainLoop.simps [of h tsk maxIter cd rid iteration] Let_def)
        with cc4 show ?thesis by blast
      next
        case (Returns r)
        let ?e5 = "fst (callIterationEnd ?e4 ?ctx r)"
        have cc5: "completeCallback ?e5 = completeCallback e" by simp
        show ?thesis
        proof (cases "snd (callIterationEnd ?e4 ?ctx r)")
          case (Some thrown)
          with Returns \<open>iterationCallback ?e3 = Some callback\<close> nothrow assms
          have "mainLoop h tsk maxIter cd rid iteration lastErr e
                  = catchError rid tsk (iteration + 1) thrown ?e5"
            by (simp add: mainLoop.simps [of h tsk maxIter cd rid iteration] Let_def)
          with cc5 show ?thesis by blast
        next
          case endok: None
          show ?thesis
          proof (cases "it_success r")
            case True
            with endok Returns Some nothrow assms
            have "mainLoop h tsk maxIter cd rid iteration lastErr e
                  = finish status_success rid tsk
                      \<lparr>res_success = True, res_iterations = iteration + 1,
                       res_reason = reason_success, loopRunId = rid, res_error = None\<rparr> ?e5"
              by (simp add: mainLoop.simps [of h tsk maxIter cd rid iteration] Let_def)
            with cc5 show ?thesis by blast
          next
            case False
            let ?le = "case it_error r of None \<Rightarrow> lastErr
                       | Some err \<Rightarrow> if truthy err then Some err else lastErr"
            let ?e6 = "if iteration + 1 < maxIter \<and> \<not> stopRequested ?e5
                       then (if stopInCooldown h (iteration + 1) then stop ?e5 else ?e5) else ?e5"
            from False endok Returns Some nothrow assms
            have "mainLoop h tsk maxIter cd rid iteration lastErr e
                    = mainLoop h tsk maxIter cd rid (iteration + 1) ?le ?e6"
              by (simp add: mainLoop.simps [of h tsk maxIter cd rid iteration] Let_def)
            moreover have "completeCallback ?e6 = completeCallback e" by simp
            moreover have "stopRequested ?e6
                      \<longrightarrow> stopInCallback h (iteration + 1) \<or> stopInCooldown h (iteration + 1)"
              using assms(2) by (auto split: if_splits)
            ultimately show ?thesis by blast
          qed
        qed
      qed
    qed
  qed
qed

lemma mainLoop_end:
  "\<not> iteration < maxIter \<Longrightarrow>
     mainLoop h tsk maxIter cd rid iteration lastErr e
       = finish status_failed rid tsk
           \<lparr>res_success = False, res_iterations = iteration, res_reason = reason_max_iterations,
            loopRunId = rid, res_error = lastErr\<rparr> e"
  by (simp add: mainLoop.simps [of h tsk maxIter cd rid iteration])

lemma mainLoop_stop:
  "iteration < maxIter \<Longrightarrow> stopRequested e \<Longrightarrow>
     mainLoop h tsk maxIter cd rid iteration lastErr e
       = finish status_stopped rid tsk
           \<lparr>res_success = False, res_iterations = iteration, res_reason = reason_stopped,
            loopRunId = rid, res_error = None\<rparr> e"
  by (simp add: mainLoop.simps [of h tsk maxIter cd rid iteration])



text \<open>
  A run ends as stopped only at the top of a pass that finds the flag set; the flag is
  set only by a stop of the host in the pass before.
\<close>

lemma mainLoop_stopped:
  "snd (mainLoop h tsk maxIter cd rid i lastErr e) = Inr r \<Longrightarrow>
   res_reason r = reason_stopped \<Longrightarrow>
   (stopRequested e \<longrightarrow> 1 \<le> i \<and> (stopInCallback h i \<or> stopInCooldown h i)) \<Longrightarrow>
   0 \<le> i \<Longrightarrow>
   1 \<le> res_iterations r \<and> res_iterations r < maxIter
   \<and> (stopInCallback h (res_iterations r) \<or> stopInCooldown h (res_iterations r))"
proof (induction "nat (maxIter - i)" arbitrary: i lastErr e rule: less_induct)
  case less
  show ?case
  proof (cases "i < maxIter")
    case False
    with less.prems
      finish_resolved [of status_failed rid tsk
        "\<lparr>res_success = False, res_iterations = i, res_reason = reason_max_iterations,
          loopRunId = rid, res_error = lastErr\<rparr>" e r]
    show ?thesis by (auto simp: mainLoop_end)
  next
    case lt: True
    show ?thesis
    proof (cases "stopRequested e")
      case True
      with lt less.prems
        finish_resolved [of status_stopped rid tsk
          "\<lparr>res_success = False, res_iterations = i, res_reason = reason_stopped,
            loopRunId = rid, res_error = None\<rparr>" e r]
      show ?thesis by (auto simp: mainLoop_stop)
    next
      case False
      from mainLoop_pass [OF lt False, of h tsk cd rid lastErr]
      consider (caught) msg e' where
          "mainLoop h tsk maxIter cd rid i lastErr e = catchError rid tsk (i + 1) msg e'"
        | (succeeded) e' where
          "mainLoop h tsk maxIter cd rid i lastErr e
             = finish status_success rid tsk
                 \<lparr>res_success = True, res_iterations = i + 1, res_reason = reason_success,
                  loopRunId = rid, res_error = None\<rparr> e'"
        | (next_pass) lastErr' e' where
          "mainLoop h tsk maxIter cd rid i lastErr e
             = mainLoop h tsk maxIter cd rid (i + 1) lastErr' e'"
          "stopRequested e' \<longrightarrow> stopInCallback h (i + 1) \<or> stopInCooldown h (i + 1)"
        by blast
      then show ?thesis
      proof cases
        case caught
        with less.prems catchError_resolved [of rid tsk "i + 1" msg e' r] show ?thesis
          by auto
      next
        case succeeded
        with less.prems
          finish_resolved [of status_success rid tsk
            "\<lparr>res_success = True, res_iterations = i + 1, res_reason = reason_success,
              loopRunId = rid, res_error = None\<rparr>" e' r]
        show ?thesis by auto
      next
        case next_pass
        from lt have m: "nat (maxIter - (i + 1)) < nat (maxIter - i)" by simp
        from less.prems(1) next_pass(1)
        have r: "snd (mainLoop h tsk maxIter cd rid (i + 1) lastErr' e') = Inr r" by simp
        have inv: "stopRequested e' \<longrightarrow>
                     1 \<le> i + 1 \<and> (stopInCallback h (i + 1) \<or> stopInCooldown h (i + 1))"
          using next_pass(2) less.prems(4) by simp
        from less.prems(4) have "0 \<le> i + 1" by simp
        from less.hyps [OF m r less.prems(2) inv this] show ?thesis .
      qed
    qed
  qed
qed

text \<open>What \<open>start\<close> does when no run of the session is Running.\<close>

lemma start_idle:
  "getActiveLoopRun (db e) (sessionId e) = None \<Longrightarrow>
     start h e tsk opts
       = mainLoop h tsk
           (case opt_maxIterations opts of Some m \<Rightarrow> m | None \<Rightarrow> cfg_max_iterations (config e))
           (case opt_cooldownMs opts of Some c \<Rightarrow> c | None \<Rightarrow> cooldown_ms (config e))
           (js ''loop-'' @ show_nat (next_id (db e))) 0 None
           (e\<lparr>stopRequested := False,
              db := (db e)\<lparr>loop_runs := loop_runs (db e) @
                       [\<lparr>lr_id = js ''loop-'' @ show_nat (next_id (db e)),
                         lr_session_id = sessionId e, lr_task = tsk,
                         lr_criteria = (case opt_criteria opts of
                                          Some c \<Rightarrow> c | None \<Rightarrow> success_criteria (config e)),
                         lr_status = status_running, lr_iterations = 0,
                         lr_max_iterations = (case opt_maxIterations opts of
                                                Some m \<Rightarrow> m | None \<Rightarrow> cfg_max_iterations (config e)),
                         lr_started_at = clock e, lr_ended_at = None,
                         lr_snapshot_path = None\<rparr>],
                     next_id := Suc (next_id (db e))\<rparr>,
              currentLoopRun := Some
                       \<lparr>lr_id = js ''loop-'' @ show_nat (next_id (db e)),
                         lr_session_id = sessionId e, lr_task = tsk,
                         lr_criteria = (case opt_criteria opts of
                                          Some c \<Rightarrow> c | None \<Rightarrow> success_criteria (config e)),
                         lr_status = status_running, lr_iterations = 0,
                         lr_max_iterations = (case opt_maxIterations opts of
                                                Some m \<Rightarrow> m | None \<Rightarrow> cfg_max_iterations (config e)),
                         lr_started_at = clock e, lr_ended_at = None,
                         lr_snapshot_path = None\<rparr>\<rparr>)"
  by (cases "opt_criteria opts"; cases "opt_maxIterations opts"; cases "opt_cooldownMs opts")
    (simp_all add: start_def Let_def split_beta createLoopRun_def)







lemma start_flag_irrelevant:
  "snd (start h (e\<lparr>stopRequested := b\<rparr>) tsk opts) = snd (start h e tsk opts)"
  by (simp add: start_def Let_def split_beta split: option.splits)

lemma stop_idle: "\<not> isRunning e \<Longrightarrow> stop e = e\<lparr>stopRequested := True\<rparr>"
  by (simp add: stop_def isRunning_def Let_def split: option.splits)

text \<open>
  Claim C10. \<open>start\<close> clears the stop flag first. Its result is the same whether the flag
  was set or not when it was called, and the same after a \<open>stop\<close> on an engine that is
  not running. If the host never calls \<open>stop\<close> during the run, the reason of the result
  is not stopped. If the reason is stopped, the host called \<open>stop\<close> during some pass
  \<open>k\<close>, while the callback was in flight or during the cooldown, \<open>k\<close> is not the last
  pass allowed, and the run ended at the top of the pass after it, with \<open>k\<close> iterations.
\<close>

theorem start_clears_stop_flag:
  "snd (start h (e\<lparr>stopRequested := True\<rparr>) tsk opts) = snd (start h e tsk opts)
   \<and> (\<not> isRunning e \<longrightarrow> snd (start h (stop e) tsk opts) = snd (start h e tsk opts))
   \<and> ((\<forall>i. \<not> stopInCallback h i \<and> \<not> stopInCooldown h i) \<longrightarrow>
        (\<forall>result. snd (start h e tsk opts) = Inr result \<longrightarrow> res_reason result \<noteq> reason_stopped))
   \<and> (\<forall>result. snd (start h e tsk opts) = Inr result \<and> res_reason result = reason_stopped \<longrightarrow>
        1 \<le> res_iterations result
        \<and> res_iterations result
            < (case opt_maxIterations opts of Some m \<Rightarrow> m | None \<Rightarrow> cfg_max_iterations (config e))
        \<and> (stopInCallback h (res_iterations result) \<or> stopInCooldown h (res_iterations result)))"
proof -
  have later: "1 \<le> res_iterations result
        \<and> res_iterations result
            < (case opt_maxIterations opts of Some m \<Rightarrow> m | None \<Rightarrow> cfg_max_iterations (config e))
        \<and> (stopInCallback h (res_iterations result) \<or> stopInCooldown h (res_iterations result))"
    if ret: "snd (start h e tsk opts) = Inr result" and stopped: "res_reason result = reason_stopped"
    for result
  proof -
    from ret have idle: "getActiveLoopRun (db e) (sessionId e) = None"
      by (cases "getActiveLoopRun (db e) (sessionId e)") (simp_all add: start_def)
    from mainLoop_stopped [OF ret [unfolded start_idle [OF idle]] stopped]
    show ?thesis by simp
  qed
  show ?thesis
  proof (intro conjI impI allI)
    show "snd (start h (e\<lparr>stopRequested := True\<rparr>) tsk opts) = snd (start h e tsk opts)"
      by (rule start_flag_irrelevant)
  next
    assume "\<not> isRunning e"
    then show "snd (start h (stop e) tsk opts) = snd (start h e tsk opts)"
      by (simp add: stop_idle start_flag_irrelevant)
  next
    fix result
    assume quiet: "\<forall>i. \<not> stopInCallback h i \<and> \<not> stopInCooldown h i"
      and ret: "snd (start h e tsk opts) = Inr result"
    show "res_reason result \<noteq> reason_stopped"
    proof
      assume "res_reason result = reason_stopped"
      from later [OF ret this] quiet show False by blast
    qed
  next
    fix result
    assume "snd (start h e tsk opts) = Inr result \<and> res_reason result = reason_stopped"
    then show "1 \<le> res_iterations result" 
      and "res_iterations result
            < (case opt_maxIterations opts of Some m \<Rightarrow> m | None \<Rightarrow> cfg_max_iterations (config e))"
      and "stopInCallback h (res_iterations result) \<or> stopInCooldown h (res_iterations result)"
      using later by blast+
  qed
qed

theorem start_clears_stop_flag_witness:
  "snd (start quietHost (stop (onIteration succeedsFromSecond sampleEngine)) (js ''task'')
          (noOptions\<lparr>opt_maxIterations := Some 3, opt_cooldownMs := Some 0\<rparr>))
     = Inr \<lparr>res_success = True, res_iterations = 2, res_reason = reason_success,
            loopRunId = js ''loop-0'', res_error = None\<rparr>
   \<and> snd (start stopsInSecondPass (onIteration alwaysFails sampleEngine) (js ''task'')
          (noOptions\<lparr>opt_maxIterations := Some 3, opt_cooldownMs := Some 0\<rparr>))
     = Inr \<lparr>res_success = False, res_iterations = 2, res_reason = reason_stopped,
            loopRunId = js ''loop-0'', res_error = None\<rparr>
   \<and> (2::int) < 3 \<and> stopInCallback stopsInSecondPass 2"
proof -
  let ?opts = "noOptions\<lparr>opt_maxIterations := Some 3, opt_cooldownMs := Some 0\<rparr>"
  let ?e = "onIteration succeedsFromSecond sampleEngine"
  let ?f = "onIteration alwaysFails sampleEngine"
  have idle: "\<not> isRunning ?e"
    by (simp add: isRunning_def onIteration_def sampleEngine_def createLoopEngine_def)
  have run1: "snd (start quietHost ?e (js ''task'') ?opts)
     = Inr \<lparr>res_success = True, res_iterations = 2, res_reason = reason_success,
            loopRunId = js ''loop-0'', res_error = None\<rparr>"
    by code_simp
  have run2: "snd (start stopsInSecondPass ?f (js ''task'') ?opts)
     = Inr \<lparr>res_success = False, res_iterations = 2, res_reason = reason_stopped,
            loopRunId = js ''loop-0'', res_error = None\<rparr>"
    by code_simp
  have nocool: "\<not> stopInCooldown stopsInSecondPass 2"
    by (simp add: stopsInSecondPass_def)
  have budget: "(case opt_maxIterations ?opts of Some m \<Rightarrow> m
                 | None \<Rightarrow> cfg_max_iterations (config ?f)) = 3"
    by simp
  from start_clears_stop_flag [of quietHost ?e "js ''task''" ?opts] idle run1
  have a: "snd (start quietHost (stop ?e) (js ''task'') ?opts)
     = Inr \<lparr>res_success = True, res_iterations = 2, res_reason = reason_success,
            loopRunId = js ''loop-0'', res_error = None\<rparr>"
    by simp
  from start_clears_stop_flag [of stopsInSecondPass ?f "js ''task''" ?opts] run2 budget nocool
  have b: "(2::int) < 3 \<and> stopInCallback stopsInSecondPass 2"
    by simp
  from a run2 b show ?thesis by simp
qed

section \<open>Properties of the snapshot manager\<close>

lemma mkdirs_frame:
  "mkdirs fs p qs = Inr fs1 \<Longrightarrow>
     (\<forall>q. q \<notin> set qs \<longrightarrow> fs1 q = fs q) \<and> (\<forall>q. fs q \<noteq> None \<longrightarrow> fs1 q = fs q)"
proof (induction qs arbitrary: fs)
  case Nil
  then show ?case by simp
next
  case (Cons a qs)
  show ?case
  proof (cases "fs a")
    case None
    with Cons.prems have "mkdirs (fs(a \<mapsto> Dir)) p qs = Inr fs1" by simp
    from Cons.IH [OF this] None show ?thesis by (auto simp: fun_upd_def)
  next
    case (Some n)
    show ?thesis
    proof (cases n)
      case (File c)
      with Some Cons.prems show ?thesis by simp
    next
      case Dir
      with Some Cons.prems have "mkdirs fs p qs = Inr fs1" by simp
      from Cons.IH [OF this] show ?thesis by auto
    qed
  qed
qed

lemma mkdirSync_frame:
  assumes "mkdirSync fs p = Inr fs1"
  shows "(\<forall>q. \<not> prefix q p \<longrightarrow> fs1 q = fs q) \<and> (\<forall>q. fs q \<noteq> None \<longrightarrow> fs1 q = fs q)"
proof -
  have "\<forall>q. \<not> prefix q p \<longrightarrow> q \<notin> set (map (\<lambda>n. take n p) [1..<Suc (length p)])"
    by (auto simp: take_is_prefix)
  with mkdirs_frame [OF assms [unfolded mkdirSync_def]] show ?thesis by blast
qed

lemma copyFileSync_result:
  assumes "copyFileSync fs1 src dest = Inr fs2"
  shows "\<exists>c. fs1 src = Some (File c) \<and> fs2 = fs1(dest \<mapsto> File c)"
proof (cases "src = []")
  case True
  with assms show ?thesis by (simp add: copyFileSync_def)
next
  case False
  with assms show ?thesis
    by (auto simp: copyFileSync_def split: option.splits node.splits if_splits)
qed

text \<open>One file restored: what the step changes.\<close>

lemma restore_step:
  assumes mk: "mkdirSync fs (dirname dest) = Inr fs1"
    and cp: "copyFileSync fs1 src dest = Inr fs2"
    and src: "existsSync fs src"
  shows "fs2 dest = fs src"
    and "\<forall>q. \<not> prefix q dest \<longrightarrow> fs2 q = fs q"
    and "\<forall>q. fs q \<noteq> None \<and> q \<noteq> dest \<longrightarrow> fs2 q = fs q"
    and "fs src \<noteq> None"
proof -
  from copyFileSync_result [OF cp] obtain c where
    c: "fs1 src = Some (File c)" "fs2 = fs1(dest \<mapsto> File c)" by blast
  from mkdirSync_frame [OF mk] have
    fr: "\<forall>q. \<not> prefix q (dirname dest) \<longrightarrow> fs1 q = fs q" "\<forall>q. fs q \<noteq> None \<longrightarrow> fs1 q = fs q"
    by blast+
  have srcne: "src \<noteq> []" using cp by (auto simp: copyFileSync_def)
  with src have ex: "fs src \<noteq> None" by (simp add: existsSync_def)
  then show "fs src \<noteq> None" .
  from ex fr(2) c(1) have "fs src = Some (File c)" by auto
  with c(2) show "fs2 dest = fs src" by simp
  have pre: "prefix q dest" if "prefix q (dirname dest)" for q
    using that by (metis dirname_def prefix_order.trans prefixeq_butlast)
  show "\<forall>q. \<not> prefix q dest \<longrightarrow> fs2 q = fs q"
  proof (intro allI impI)
    fix q assume n: "\<not> prefix q dest"
    then have "q \<noteq> dest" by auto
    moreover from n pre have "\<not> prefix q (dirname dest)" by blast
    ultimately show "fs2 q = fs q" using c(2) fr(1) by simp
  qed
  show "\<forall>q. fs q \<noteq> None \<and> q \<noteq> dest \<longrightarrow> fs2 q = fs q"
    using c(2) fr(2) by simp
qed


text \<open>
  The loop of \<open>restore\<close>, when it ends without an error and no file of the manifest
  has its destination inside the snapshot directory: the snapshot directory is as it
  was, every listed file that is in the snapshot is at its destination, what existed
  elsewhere is as it was, and nothing is new but the destinations and the directories
  on the way to them.
\<close>

lemma restoreFiles_correct:
  assumes "restoreFiles project snap files fs = (fs', None)"
    and "\<forall>f\<in>set files. \<not> prefix snap (joinPath project f)"
  shows "(\<forall>q. prefix snap q \<longrightarrow> fs' q = fs q)
     \<and> (\<forall>f\<in>set files. existsSync fs (joinPath snap f) \<longrightarrow>
            fs' (joinPath project f) = fs (joinPath snap f))
     \<and> (\<forall>q. fs q \<noteq> None \<and> (\<forall>f\<in>set files. q \<noteq> joinPath project f) \<longrightarrow> fs' q = fs q)
     \<and> (\<forall>q. (\<forall>f\<in>set files. existsSync fs (joinPath snap f) \<longrightarrow> \<not> prefix q (joinPath project f))
            \<longrightarrow> fs' q = fs q)"
  using assms
proof (induction files arbitrary: fs)
  case Nil
  then show ?case by simp
next
  case (Cons f files)
  let ?src = "joinPath snap f"
  let ?dest = "joinPath project f"
  from Cons.prems(2) have H: "\<forall>g\<in>set files. \<not> prefix snap (joinPath project g)"
    and Hf: "\<not> prefix snap ?dest" by simp_all
  show ?case
  proof (cases "existsSync fs ?src")
    case False
    with Cons.prems(1) have "restoreFiles project snap files fs = (fs', None)"
      by (simp add: Let_def)
    from Cons.IH [OF this H] False show ?thesis by auto
  next
    case True
    from True Cons.prems(1) obtain fs1 where
      mk: "mkdirSync fs (dirname ?dest) = Inr fs1"
      by (cases "mkdirSync fs (dirname ?dest)") (auto simp: Let_def)
    from True Cons.prems(1) mk obtain fs2 where
      cp: "copyFileSync fs1 ?src ?dest = Inr fs2"
      by (cases "copyFileSync fs1 ?src ?dest") (auto simp: Let_def)
    from True Cons.prems(1) mk cp have rest: "restoreFiles project snap files fs2 = (fs', None)"
      by (simp add: Let_def)
    note st = restore_step [OF mk cp True]
    note ih = Cons.IH [OF rest H]
    have under: "fs2 q = fs q" if "prefix snap q" for q
    proof -
      from that Hf have "\<not> prefix q ?dest"
        using prefix_order.trans by blast
      with st(2) show ?thesis by blast
    qed
    have srcs: "existsSync fs2 (joinPath snap g) = existsSync fs (joinPath snap g)"
      and srcv: "fs2 (joinPath snap g) = fs (joinPath snap g)" for g
      using under [of "joinPath snap g"] by (simp_all add: existsSync_def joinPath_def)
    have c1: "\<forall>q. prefix snap q \<longrightarrow> fs' q = fs q"
      using ih under by auto
    have c2: "\<forall>g\<in>set (f # files). existsSync fs (joinPath snap g) \<longrightarrow>
                fs' (joinPath project g) = fs (joinPath snap g)"
    proof (intro ballI impI)
      fix g assume g: "g \<in> set (f # files)" and ex: "existsSync fs (joinPath snap g)"
      show "fs' (joinPath project g) = fs (joinPath snap g)"
      proof (cases "g \<in> set files")
        case True
        with ih ex srcs srcv show ?thesis by auto
      next
        case False
        with g have gf: "g = f" by simp
        have "\<forall>h\<in>set files. ?dest \<noteq> joinPath project h"
          using False gf by (auto simp: joinPath_def)
        moreover have "fs2 ?dest \<noteq> None" using st(1) st(4) by simp
        ultimately have "fs' ?dest = fs2 ?dest" using ih by blast
        with st(1) gf show ?thesis by simp
      qed
    qed
    have c3: "\<forall>q. fs q \<noteq> None \<and> (\<forall>g\<in>set (f # files). q \<noteq> joinPath project g) \<longrightarrow> fs' q = fs q"
    proof (intro allI impI)
      fix q assume a: "fs q \<noteq> None \<and> (\<forall>g\<in>set (f # files). q \<noteq> joinPath project g)"
      then have "fs2 q = fs q" using st(3) by simp
      moreover with a have "fs' q = fs2 q" using ih by simp
      ultimately show "fs' q = fs q" by simp
    qed
    have c4: "\<forall>q. (\<forall>g\<in>set (f # files). existsSync fs (joinPath snap g)
                      \<longrightarrow> \<not> prefix q (joinPath project g)) \<longrightarrow> fs' q = fs q"
    proof (intro allI impI)
      fix q assume a: "\<forall>g\<in>set (f # files). existsSync fs (joinPath snap g)
                      \<longrightarrow> \<not> prefix q (joinPath project g)"
      with True have "\<not> prefix q ?dest" by simp
      then have "fs2 q = fs q" using st(2) by blast
      moreover from a srcs have "\<forall>g\<in>set files. existsSync fs2 (joinPath snap g)
                      \<longrightarrow> \<not> prefix q (joinPath project g)" by simp
      then have "fs' q = fs2 q" using ih by blast
      ultimately show "fs' q = fs q" by simp
    qed
    from c1 c2 c3 c4 show ?thesis by blast
  qed
qed


lemma strict_prefix_butlast: "strict_prefix q p \<Longrightarrow> prefix q (butlast p)"
proof -
  assume "strict_prefix q p"
  then obtain z zs where "p = q @ z # zs" by (rule strict_prefixE')
  then have "butlast p = q @ butlast (z # zs)" by (simp add: butlast_append)
  then show ?thesis by simp
qed

lemma mkdirs_succeeds:
  "\<forall>q\<in>set qs. fs q = None \<or> fs q = Some Dir \<Longrightarrow>
     \<exists>fs1. mkdirs fs p qs = Inr fs1 \<and> (\<forall>q\<in>set qs. fs1 q = Some Dir)"
proof (induction qs arbitrary: fs)
  case Nil
  then show ?case by simp
next
  case (Cons a qs)
  show ?case
  proof (cases "fs a")
    case None
    from Cons.prems have "\<forall>q\<in>set qs. (fs(a \<mapsto> Dir)) q = None \<or> (fs(a \<mapsto> Dir)) q = Some Dir"
      by simp
    from Cons.IH [OF this] obtain fs1 where
      m: "mkdirs (fs(a \<mapsto> Dir)) p qs = Inr fs1" and d: "\<forall>q\<in>set qs. fs1 q = Some Dir" by blast
    from mkdirs_frame [OF m] have "fs1 a = Some Dir" by simp
    with m d None show ?thesis by simp
  next
    case (Some n)
    with Cons.prems have n: "fs a = Some Dir" by auto
    from Cons.prems have "\<forall>q\<in>set qs. fs q = None \<or> fs q = Some Dir" by simp
    from Cons.IH [OF this] obtain fs1 where
      m: "mkdirs fs p qs = Inr fs1" and d: "\<forall>q\<in>set qs. fs1 q = Some Dir" by blast
    from mkdirs_frame [OF m] n have "fs1 a = Some Dir" by simp
    with m d n show ?thesis by simp
  qed
qed

lemma prefixes_as_takes:
  "prefix q p \<Longrightarrow> q \<noteq> [] \<Longrightarrow> q \<in> set (map (\<lambda>n. take n p) [1..<Suc (length p)])"
proof -
  assume pre: "prefix q p" and ne: "q \<noteq> []"
  from pre obtain r where p: "p = q @ r" by (auto simp: prefix_def)
  then have "q = take (length q) p" by simp
  moreover from ne p have "1 \<le> length q \<and> length q < Suc (length p)"
    by (cases q) simp_all
  ultimately show ?thesis by (metis (mono_tags, lifting) atLeastLessThan_iff image_iff list.set_map set_upt)
qed

lemma mkdirSync_succeeds:
  assumes "\<forall>q. prefix q p \<and> q \<noteq> [] \<longrightarrow> fs q = None \<or> fs q = Some Dir"
  shows "\<exists>fs1. mkdirSync fs p = Inr fs1 \<and> (\<forall>q. prefix q p \<and> q \<noteq> [] \<longrightarrow> fs1 q = Some Dir)"
proof -
  have "\<forall>q\<in>set (map (\<lambda>n. take n p) [1..<Suc (length p)]). fs q = None \<or> fs q = Some Dir"
  proof
    fix q assume "q \<in> set (map (\<lambda>n. take n p) [1..<Suc (length p)])"
    then obtain n where n: "q = take n p" "1 \<le> n" "n < Suc (length p)" by auto
    then have "prefix q p" by (simp add: take_is_prefix)
    moreover from n have "q \<noteq> []" by (cases p) auto
    ultimately show "fs q = None \<or> fs q = Some Dir" using assms by blast
  qed
  from mkdirs_succeeds [OF this, of p] obtain fs1 where
    m: "mkdirs fs p (map (\<lambda>n. take n p) [1..<Suc (length p)]) = Inr fs1" and
    d: "\<forall>q\<in>set (map (\<lambda>n. take n p) [1..<Suc (length p)]). fs1 q = Some Dir" by blast
  from d have "\<forall>q. prefix q p \<and> q \<noteq> [] \<longrightarrow> fs1 q = Some Dir"
    using prefixes_as_takes by blast
  with m show ?thesis unfolding mkdirSync_def by blast
qed

lemma prefix_butlast_strict: "prefix q (butlast d) \<Longrightarrow> d \<noteq> [] \<Longrightarrow> strict_prefix q d"
proof -
  assume pre: "prefix q (butlast d)" and ne: "d \<noteq> []"
  from pre obtain r where r: "butlast d = q @ r" by (auto simp: prefix_def)
  from ne have "butlast d @ [last d] = d" by simp
  with r have d: "d = q @ (r @ [last d])" by simp
  then have "prefix q d" by (metis prefixI)
  moreover from d have "length q < length d" by (metis length_append length_append_singleton add_Suc_right le_add1 le_imp_less_Suc)
  ultimately show ?thesis by (auto simp: strict_prefix_def)
qed

lemma copyFileSync_succeeds:
  assumes "fs1 src = Some (File c)" and "src \<noteq> []" and "\<not> isDirectory fs1 dest"
    and "isDirectory fs1 (dirname dest)"
  shows "copyFileSync fs1 src dest = Inr (fs1(dest \<mapsto> File c))"
  using assms by (simp add: copyFileSync_def)

text \<open>
  When the loop ends without an error: the listed files that are in the snapshot are
  files there, nothing on the way to a destination is a file, no destination is a
  directory or lies on the way to another one, and none is inside the snapshot directory.
\<close>

lemma restoreFiles_succeeds:
  assumes "\<forall>f\<in>set files. existsSync fs (joinPath snap f) \<longrightarrow>
             (\<exists>c. fs (joinPath snap f) = Some (File c))"
    and "\<forall>f\<in>set files. existsSync fs (joinPath snap f) \<longrightarrow>
             (\<forall>q. strict_prefix q (joinPath project f) \<and> q \<noteq> [] \<longrightarrow> fs q = None \<or> fs q = Some Dir)
             \<and> \<not> isDirectory fs (joinPath project f)"
    and "\<forall>f\<in>set files. \<forall>g\<in>set files.
             existsSync fs (joinPath snap f) \<and> existsSync fs (joinPath snap g) \<longrightarrow>
             \<not> strict_prefix (joinPath project f) (joinPath project g)"
    and "\<forall>f\<in>set files. \<not> prefix snap (joinPath project f)"
  shows "snd (restoreFiles project snap files fs) = None"
  using assms
proof (induction files arbitrary: fs)
  case Nil
  show ?case by simp
next
  case (Cons f files)
  let ?src = "joinPath snap f"
  let ?dest = "joinPath project f"
  show ?case
  proof (cases "existsSync fs ?src")
    case False
    have "snd (restoreFiles project snap files fs) = None"
      by (rule Cons.IH) (use Cons.prems in auto)
    with False show ?thesis by (simp add: Let_def)
  next
    case True
    from Cons.prems(4) have Hf: "\<not> prefix snap ?dest" by simp
    then have "snap \<noteq> []" by auto
    then have srcne: "?src \<noteq> []" by (simp add: joinPath_def)
    from True Cons.prems(1) obtain c where c: "fs ?src = Some (File c)" by auto
    from True Cons.prems(2) have
      way: "\<forall>q. strict_prefix q ?dest \<and> q \<noteq> [] \<longrightarrow> fs q = None \<or> fs q = Some Dir"
      and nodir: "\<not> isDirectory fs ?dest" by auto
    from nodir have destne: "?dest \<noteq> []" by (simp add: isDirectory_def)
    have "\<forall>q. prefix q (dirname ?dest) \<and> q \<noteq> [] \<longrightarrow> fs q = None \<or> fs q = Some Dir"
    proof (intro allI impI)
      fix q assume q: "prefix q (dirname ?dest) \<and> q \<noteq> []"
      then have "strict_prefix q ?dest"
        using destne unfolding dirname_def by (simp add: prefix_butlast_strict)
      with q way show "fs q = None \<or> fs q = Some Dir" by blast
    qed
    from mkdirSync_succeeds [OF this] obtain fs1 where
      mk: "mkdirSync fs (dirname ?dest) = Inr fs1" and
      dirs: "\<forall>q. prefix q (dirname ?dest) \<and> q \<noteq> [] \<longrightarrow> fs1 q = Some Dir" by blast
    note fr = mkdirSync_frame [OF mk]
    from fr c have c1: "fs1 ?src = Some (File c)" by auto
    have "\<not> prefix ?dest (dirname ?dest)"
    proof
      assume "prefix ?dest (dirname ?dest)"
      then have "length ?dest \<le> length (butlast ?dest)"
        unfolding dirname_def by (rule prefix_length_le)
      moreover have "length (butlast ?dest) = length ?dest - 1" by (rule length_butlast)
      moreover from destne have "0 < length ?dest" by simp
      ultimately show False by arith
    qed
    with fr have "fs1 ?dest = fs ?dest" by blast
    with nodir destne have nodir1: "\<not> isDirectory fs1 ?dest" by (simp add: isDirectory_def)
    have isdir1: "isDirectory fs1 (dirname ?dest)"
      using dirs by (auto simp: isDirectory_def)
    from copyFileSync_succeeds [OF c1 srcne nodir1 isdir1]
    have cp: "copyFileSync fs1 ?src ?dest = Inr (fs1(?dest \<mapsto> File c))" .
    let ?fs2 = "fs1(?dest \<mapsto> File c)"
    note st = restore_step [OF mk cp True]
    have under: "?fs2 q = fs q" if "prefix snap q" for q
    proof -
      from that Hf have "\<not> prefix q ?dest" using prefix_order.trans by blast
      with st(2) show ?thesis by blast
    qed
    have srcs: "existsSync ?fs2 (joinPath snap g) = existsSync fs (joinPath snap g)"
      and srcv: "?fs2 (joinPath snap g) = fs (joinPath snap g)" for g
      using under [of "joinPath snap g"] by (simp_all add: existsSync_def joinPath_def)
    have "snd (restoreFiles project snap files ?fs2) = None"
    proof (rule Cons.IH)
      show "\<forall>g\<in>set files. existsSync ?fs2 (joinPath snap g) \<longrightarrow>
              (\<exists>c. ?fs2 (joinPath snap g) = Some (File c))"
        using Cons.prems(1) srcs srcv by simp
      show "\<forall>g\<in>set files. \<forall>h\<in>set files.
             existsSync ?fs2 (joinPath snap g) \<and> existsSync ?fs2 (joinPath snap h) \<longrightarrow>
             \<not> strict_prefix (joinPath project g) (joinPath project h)"
        using Cons.prems(3) srcs by simp
      show "\<forall>g\<in>set files. \<not> prefix snap (joinPath project g)"
        using Cons.prems(4) by simp
      show "\<forall>g\<in>set files. existsSync ?fs2 (joinPath snap g) \<longrightarrow>
             (\<forall>q. strict_prefix q (joinPath project g) \<and> q \<noteq> [] \<longrightarrow> ?fs2 q = None \<or> ?fs2 q = Some Dir)
             \<and> \<not> isDirectory ?fs2 (joinPath project g)"
      proof (intro ballI impI)
        fix g assume g: "g \<in> set files" and "existsSync ?fs2 (joinPath snap g)"
        then have ex: "existsSync fs (joinPath snap g)" using srcs by simp
        let ?dg = "joinPath project g"
        from g ex Cons.prems(2) have
          wayg: "\<forall>q. strict_prefix q ?dg \<and> q \<noteq> [] \<longrightarrow> fs q = None \<or> fs q = Some Dir"
          and nodirg: "\<not> isDirectory fs ?dg" by auto
        from g ex True Cons.prems(3) have
          x1: "\<not> strict_prefix ?dest ?dg" and x2: "\<not> strict_prefix ?dg ?dest" by auto
        have a: "\<forall>q. strict_prefix q ?dg \<and> q \<noteq> [] \<longrightarrow> ?fs2 q = None \<or> ?fs2 q = Some Dir"
        proof (intro allI impI)
          fix q assume q: "strict_prefix q ?dg \<and> q \<noteq> []"
          with x1 have qd: "q \<noteq> ?dest" by auto
          show "?fs2 q = None \<or> ?fs2 q = Some Dir"
          proof (cases "prefix q ?dest")
            case False
            with st(2) have "?fs2 q = fs q" by blast
            with q wayg show ?thesis by auto
          next
            case True
            with qd have "strict_prefix q ?dest" by auto
            then have "prefix q (dirname ?dest)" unfolding dirname_def by (rule strict_prefix_butlast)
            with q dirs have "fs1 q = Some Dir" by blast
            with qd show ?thesis by simp
          qed
        qed
        have b: "\<not> isDirectory ?fs2 ?dg"
        proof (cases "?dg = ?dest")
          case True
          with destne show ?thesis by (simp add: isDirectory_def)
        next
          case False
          with x2 have "\<not> prefix ?dg ?dest" by auto
          with st(2) have "?fs2 ?dg = fs ?dg" by blast
          with nodirg show ?thesis by (simp add: isDirectory_def)
        qed
        from a b show "(\<forall>q. strict_prefix q ?dg \<and> q \<noteq> [] \<longrightarrow> ?fs2 q = None \<or> ?fs2 q = Some Dir)
             \<and> \<not> isDirectory ?fs2 ?dg" by blast
      qed
    qed
    with True mk cp show ?thesis by (simp add: Let_def)
  qed
qed


text \<open>
  Claim C8. \<open>restore\<close> fails with ``Snapshot not found'' for every path that does not
  exist, and with ``Invalid snapshot'' for every path that exists and has no manifest
  file in it; in both cases nothing is changed. Otherwise, for a manifest that lists
  files of which none has its destination inside the snapshot directory: when
  \<open>restore\<close> ends without an error, every listed file that is in the snapshot is at its
  place under the project, with the content it has in the snapshot, the listed files
  that are not in the snapshot are skipped, nothing changing but the destinations of the
  others and the directories on the way to them, and the snapshot is as it was. It ends
  without an error when the listed files in the snapshot are files and their
  destinations can be written: nothing on the way to one is a file, and none is a
  directory or lies on the way to another.
\<close>

theorem restore_cases:
  "(\<not> existsSync fs snap \<longrightarrow>
      restore manifestFiles project fs snap = (fs, Some (SnapshotNotFound snap)))
   \<and> (existsSync fs snap \<and> \<not> existsSync fs (joinPath snap [metaName]) \<longrightarrow>
      restore manifestFiles project fs snap = (fs, Some (InvalidSnapshot snap)))
   \<and> (existsSync fs snap \<and> fs (joinPath snap [metaName]) = Some (File text)
        \<and> manifestFiles text = Some files
        \<and> (\<forall>f\<in>set files. \<not> prefix snap (joinPath project f)) \<longrightarrow>
        ((\<forall>f\<in>set files. existsSync fs (joinPath snap f) \<longrightarrow>
             (\<exists>c. fs (joinPath snap f) = Some (File c)))
         \<and> (\<forall>f\<in>set files. existsSync fs (joinPath snap f) \<longrightarrow>
             (\<forall>q. strict_prefix q (joinPath project f) \<and> q \<noteq> [] \<longrightarrow> fs q = None \<or> fs q = Some Dir)
             \<and> \<not> isDirectory fs (joinPath project f))
         \<and> (\<forall>f\<in>set files. \<forall>g\<in>set files.
             existsSync fs (joinPath snap f) \<and> existsSync fs (joinPath snap g) \<longrightarrow>
             \<not> strict_prefix (joinPath project f) (joinPath project g))
         \<longrightarrow> snd (restore manifestFiles project fs snap) = None)
        \<and> (snd (restore manifestFiles project fs snap) = None \<longrightarrow>
             (\<forall>f\<in>set files. existsSync fs (joinPath snap f) \<longrightarrow>
                fst (restore manifestFiles project fs snap) (joinPath project f)
                  = fs (joinPath snap f))
           \<and> (\<forall>q. (\<forall>f\<in>set files. existsSync fs (joinPath snap f)
                        \<longrightarrow> \<not> prefix q (joinPath project f))
                  \<longrightarrow> fst (restore manifestFiles project fs snap) q = fs q)
           \<and> (\<forall>q. prefix snap q \<longrightarrow> fst (restore manifestFiles project fs snap) q = fs q)))"
proof (intro conjI impI)
  assume "\<not> existsSync fs snap"
  then show "restore manifestFiles project fs snap = (fs, Some (SnapshotNotFound snap))"
    by (simp add: restore_def)
next
  assume "existsSync fs snap \<and> \<not> existsSync fs (joinPath snap [metaName])"
  then show "restore manifestFiles project fs snap = (fs, Some (InvalidSnapshot snap))"
    by (simp add: restore_def Let_def)
next
  assume a: "existsSync fs snap \<and> fs (joinPath snap [metaName]) = Some (File text)
        \<and> manifestFiles text = Some files
        \<and> (\<forall>f\<in>set files. \<not> prefix snap (joinPath project f))"
  then have r: "restore manifestFiles project fs snap = restoreFiles project snap files fs"
    by (simp add: restore_def Let_def existsSync_def readFileSync_def joinPath_def)
  assume "(\<forall>f\<in>set files. existsSync fs (joinPath snap f) \<longrightarrow>
             (\<exists>c. fs (joinPath snap f) = Some (File c)))
         \<and> (\<forall>f\<in>set files. existsSync fs (joinPath snap f) \<longrightarrow>
             (\<forall>q. strict_prefix q (joinPath project f) \<and> q \<noteq> [] \<longrightarrow> fs q = None \<or> fs q = Some Dir)
             \<and> \<not> isDirectory fs (joinPath project f))
         \<and> (\<forall>f\<in>set files. \<forall>g\<in>set files.
             existsSync fs (joinPath snap f) \<and> existsSync fs (joinPath snap g) \<longrightarrow>
             \<not> strict_prefix (joinPath project f) (joinPath project g))"
  with a show "snd (restore manifestFiles project fs snap) = None"
    unfolding r by (intro restoreFiles_succeeds) blast+
next
  assume a: "existsSync fs snap \<and> fs (joinPath snap [metaName]) = Some (File text)
        \<and> manifestFiles text = Some files
        \<and> (\<forall>f\<in>set files. \<not> prefix snap (joinPath project f))"
  then have r: "restore manifestFiles project fs snap = restoreFiles project snap files fs"
    by (simp add: restore_def Let_def existsSync_def readFileSync_def joinPath_def)
  assume "snd (restore manifestFiles project fs snap) = None"
  then have "restoreFiles project snap files fs
               = (fst (restore manifestFiles project fs snap), None)"
    unfolding r by (metis prod.collapse)
  from restoreFiles_correct [OF this] a
  show "\<forall>f\<in>set files. existsSync fs (joinPath snap f) \<longrightarrow>
                fst (restore manifestFiles project fs snap) (joinPath project f)
                  = fs (joinPath snap f)"
    and "\<forall>q. (\<forall>f\<in>set files. existsSync fs (joinPath snap f)
                        \<longrightarrow> \<not> prefix q (joinPath project f))
                  \<longrightarrow> fst (restore manifestFiles project fs snap) q = fs q"
    and "\<forall>q. prefix snap q \<longrightarrow> fst (restore manifestFiles project fs snap) q = fs q"
    by blast+
qed

theorem restore_cases_witness:
  "restore sampleManifest [js ''proj''] sampleFs [js ''nowhere'']
     = (sampleFs, Some (SnapshotNotFound [js ''nowhere'']))
   \<and> restore sampleManifest [js ''proj''] sampleFs [js ''proj'']
     = (sampleFs, Some (InvalidSnapshot [js ''proj'']))
   \<and> snd (restore sampleManifest [js ''proj''] sampleFs [js ''snap'']) = None
   \<and> fst (restore sampleManifest [js ''proj''] sampleFs [js ''snap'']) [js ''proj'', js ''a.txt'']
     = Some (File (js ''original''))
   \<and> fst (restore sampleManifest [js ''proj''] sampleFs [js ''snap''])
         [js ''proj'', js ''src'', js ''b.ts'']
     = Some (File (js ''b''))
   \<and> fst (restore sampleManifest [js ''proj''] sampleFs [js ''snap'']) [js ''proj'', js ''gone.txt'']
     = None"
proof -
  let ?snap = "[js ''snap'']"
  let ?proj = "[js ''proj'']"
  have e1: "\<not> existsSync sampleFs [js ''nowhere'']"
    by (simp add: existsSync_def sampleFs_def metaName_def js_def)
  have e2: "existsSync sampleFs ?proj \<and> \<not> existsSync sampleFs (joinPath ?proj [metaName])"
    by (simp add: existsSync_def sampleFs_def metaName_def js_def joinPath_def)
  have e3: "existsSync sampleFs ?snap
      \<and> sampleFs (joinPath ?snap [metaName]) = Some (File (js ''manifest''))
      \<and> sampleManifest (js ''manifest'') = Some sampleFiles
      \<and> (\<forall>f\<in>set sampleFiles. \<not> prefix ?snap (joinPath ?proj f))"
    by (simp add: existsSync_def sampleFs_def metaName_def js_def joinPath_def sampleManifest_def
        sampleFiles_def)
  have present: "existsSync sampleFs (joinPath ?snap [js ''a.txt''])"
    "existsSync sampleFs (joinPath ?snap [js ''src'', js ''b.ts''])"
    "\<not> existsSync sampleFs (joinPath ?snap [js ''gone.txt''])"
    by (simp_all add: existsSync_def sampleFs_def metaName_def js_def joinPath_def)
  have vals: "sampleFs (joinPath ?snap [js ''a.txt'']) = Some (File (js ''original''))"
    "sampleFs (joinPath ?snap [js ''src'', js ''b.ts'']) = Some (File (js ''b''))"
    "sampleFs [js ''proj'', js ''gone.txt''] = None"
    by (simp_all add: sampleFs_def metaName_def js_def joinPath_def)
  have a1: "\<forall>f\<in>set sampleFiles. existsSync sampleFs (joinPath ?snap f) \<longrightarrow>
             (\<exists>c. sampleFs (joinPath ?snap f) = Some (File c))"
    by (simp add: existsSync_def sampleFs_def metaName_def js_def joinPath_def sampleFiles_def)
  have a2: "\<forall>f\<in>set sampleFiles. existsSync sampleFs (joinPath ?snap f) \<longrightarrow>
             (\<forall>q. strict_prefix q (joinPath ?proj f) \<and> q \<noteq> []
                   \<longrightarrow> sampleFs q = None \<or> sampleFs q = Some Dir)
             \<and> \<not> isDirectory sampleFs (joinPath ?proj f)"
    by (auto simp: existsSync_def isDirectory_def sampleFs_def metaName_def js_def joinPath_def
        sampleFiles_def)
  have a3: "\<forall>f\<in>set sampleFiles. \<forall>g\<in>set sampleFiles.
             existsSync sampleFs (joinPath ?snap f) \<and> existsSync sampleFs (joinPath ?snap g) \<longrightarrow>
             \<not> strict_prefix (joinPath ?proj f) (joinPath ?proj g)"
    by (simp add: joinPath_def sampleFiles_def js_def)
  have gone: "\<forall>f\<in>set sampleFiles. existsSync sampleFs (joinPath ?snap f)
                \<longrightarrow> \<not> prefix [js ''proj'', js ''gone.txt''] (joinPath ?proj f)"
    by (simp add: existsSync_def sampleFs_def metaName_def joinPath_def sampleFiles_def js_def)
  have mem: "[js ''a.txt''] \<in> set sampleFiles" "[js ''src'', js ''b.ts''] \<in> set sampleFiles"
    by (simp_all add: sampleFiles_def)
  note r = restore_cases [of sampleFs _ sampleManifest ?proj]
  from r [of "[js ''nowhere'']"] e1
  have c1: "restore sampleManifest ?proj sampleFs [js ''nowhere'']
     = (sampleFs, Some (SnapshotNotFound [js ''nowhere'']))" by blast
  from r [of ?proj] e2
  have c2: "restore sampleManifest ?proj sampleFs ?proj = (sampleFs, Some (InvalidSnapshot ?proj))"
    by blast
  from r [of ?snap "js ''manifest''" sampleFiles] e3 a1 a2 a3
  have c3: "snd (restore sampleManifest ?proj sampleFs ?snap) = None" by blast
  from r [of ?snap "js ''manifest''" sampleFiles] e3 c3
  have copied: "\<forall>f\<in>set sampleFiles. existsSync sampleFs (joinPath ?snap f) \<longrightarrow>
                fst (restore sampleManifest ?proj sampleFs ?snap) (joinPath ?proj f)
                  = sampleFs (joinPath ?snap f)"
    and frame: "\<forall>q. (\<forall>f\<in>set sampleFiles. existsSync sampleFs (joinPath ?snap f)
                        \<longrightarrow> \<not> prefix q (joinPath ?proj f))
                  \<longrightarrow> fst (restore sampleManifest ?proj sampleFs ?snap) q = sampleFs q"
    by blast+
  from copied mem present vals
  have c4: "fst (restore sampleManifest ?proj sampleFs ?snap) (joinPath ?proj [js ''a.txt''])
              = Some (File (js ''original''))"
    and c5: "fst (restore sampleManifest ?proj sampleFs ?snap) (joinPath ?proj [js ''src'', js ''b.ts''])
              = Some (File (js ''b''))"
    by auto
  from frame gone vals
  have c6: "fst (restore sampleManifest ?proj sampleFs ?snap) [js ''proj'', js ''gone.txt''] = None"
    by auto
  from c1 c2 c3 c4 c5 c6 show ?thesis by (simp add: joinPath_def)
qed

end
